theory Spec2Isabelle
  imports Main "HOL-Library.Multiset" "HOL-Library.AList"
begin

section \<open>The ADITI backend: data model\<close>

text \<open>
  The server is an Express application (\<^verbatim>\<open>server.js\<close>) whose handlers read and
  write four tables through an object-relational mapper: Customer, Assessment, Message and
  Document. A table is the list of its rows in insertion order; the store is the record of the
  four tables together with the last value issued by each \<^verbatim>\<open>SERIAL\<close> key sequence.

  Timestamps are milliseconds, a natural number. Every handler is a function of the store,
  of the clock readings it makes and of the request, and returns the HTTP response (status
  code and JSON body) together with the store it leaves behind.

  The bookkeeping column \<^verbatim>\<open>updatedAt\<close> of Customer and Assessment is left out: no
  handler reads or writes it, and the schema declaration that says how the mapper maintains it
  is not among the sources.
\<close>

type_synonym timestamp = nat

text \<open>
  A JSON value, as \<^verbatim>\<open>JSON.parse\<close> produces it and \<^verbatim>\<open>res.json\<close> sends it. No handler
  computes with a JSON number, so a number is kept as its decimal text. An object is the list
  of its properties in insertion order.
\<close>

datatype json =
    JNull
  | JBool bool
  | JNum string
  | JStr string
  | JArr "json list"
  | JObj "(string \<times> json) list"

record customer =
  c_id :: int
  c_fname :: string
  c_lname :: string
  c_gender :: string
  c_age :: int
  c_mobile :: string
  c_email :: string
  c_pan :: string
  c_accountNumber :: string
  c_password :: string
  c_createdAt :: timestamp
  c_lastAccessed :: "timestamp option"

record assessment =
  a_id :: int
  a_score :: int
  a_status :: string
  a_answers :: json
  a_breakdown :: "json option"
  a_customerId :: int
  a_language :: string
  a_createdAt :: timestamp

record message =
  m_id :: int
  m_sender :: string
  m_text :: string
  m_createdAt :: timestamp
  m_assessmentId :: int

record document =
  d_id :: int
  d_fileName :: string
  d_originalName :: string
  d_filePath :: string
  d_docType :: "string option"
  d_uploadDate :: timestamp
  d_assessmentId :: int

record db =
  customers :: "customer list"
  assessments :: "assessment list"
  messages :: "message list"
  documents :: "document list"
  assessment_seq :: int
  message_seq :: int
  document_seq :: int

subsection \<open>Errors and responses\<close>

text \<open>
  A thrown JavaScript error: its \<^verbatim>\<open>name\<close>, its \<^verbatim>\<open>status\<close> property when it has one
  (the completion service's client sets it to the HTTP status it received) and its
  \<^verbatim>\<open>message\<close>. \<open>toString\<close> is \<^verbatim>\<open>Error.prototype.toString\<close>.
\<close>

datatype js_error = JsError (err_name: string) (err_status: "int option") (err_message: string)

definition toString :: "js_error \<Rightarrow> string" where
  "toString e =
     (if err_name e = [] then err_message e
      else if err_message e = [] then err_name e
      else err_name e @ '': '' @ err_message e)"

text \<open>
  The errors of the mapper. Its message texts are shortened to their last line; the
  constraint names are those of the migrations.
\<close>

definition foreign_key_error :: "string \<Rightarrow> js_error" where
  "foreign_key_error c =
     JsError ''PrismaClientKnownRequestError'' None
       (''Foreign key constraint failed on the field: '' @ c)"

definition record_not_found_error :: js_error where
  "record_not_found_error =
     JsError ''PrismaClientKnownRequestError'' None ''Record to update not found.''"

definition validation_error :: "string \<Rightarrow> js_error" where
  "validation_error a =
     JsError ''PrismaClientValidationError'' None (''Invalid value provided for argument '' @ a)"

text \<open>The JSON bodies the handlers send, one constructor for each shape.\<close>

datatype body =
    Error string
  | SubmitOk string assessment
  | StatusOk string assessment
  | UploadOk string document
  | MessageOk string message
  | Messages "message list"
  | Questions json

type_synonym response = "nat \<times> body"

subsection \<open>Store operations\<close>

text \<open>
  \<^verbatim>\<open>prisma.assessment.create\<close>: the insert is refused when the foreign key
  \<^verbatim>\<open>Assessment_customerId_fkey\<close> has no customer to point at; otherwise the row gets
  the next key and the current time as \<^verbatim>\<open>createdAt\<close>.
\<close>

definition assessment_create ::
  "db \<Rightarrow> timestamp \<Rightarrow> int \<Rightarrow> int \<Rightarrow> json \<Rightarrow> json option \<Rightarrow> string \<Rightarrow> string
     \<Rightarrow> js_error + (db \<times> assessment)" where
  "assessment_create s now cid sc ans brk st lang =
     (if cid \<notin> c_id ` set (customers s)
      then Inl (foreign_key_error ''Assessment_customerId_fkey'')
      else
        let row = \<lparr> a_id = assessment_seq s + 1, a_score = sc, a_status = st, a_answers = ans,
                    a_breakdown = brk, a_customerId = cid, a_language = lang,
                    a_createdAt = now \<rparr>
        in Inr (s\<lparr> assessments := assessments s @ [row],
                   assessment_seq := assessment_seq s + 1 \<rparr>, row))"

text \<open>
  \<^verbatim>\<open>prisma.customer.update({ where: { id }, data: { lastAccessed } })\<close>: fails when no
  row has the key.
\<close>

definition customer_touch :: "db \<Rightarrow> int \<Rightarrow> timestamp \<Rightarrow> js_error + db" where
  "customer_touch s cid now =
     (if cid \<notin> c_id ` set (customers s) then Inl record_not_found_error
      else Inr (s\<lparr> customers :=
                     map (\<lambda>c. if c_id c = cid then c\<lparr> c_lastAccessed := Some now \<rparr> else c)
                       (customers s) \<rparr>))"

section \<open>Submitting an assessment\<close>

text \<open>
  The status computed at the head of \<^verbatim>\<open>POST /api/assessment/submit\<close>, under the name
  the specification gives it. The strings are the ones the handler stores.
\<close>

definition decide :: "int \<Rightarrow> string" where
  "decide score =
     (if score \<ge> 700 then ''Approved''
      else if score \<ge> 500 then ''Manual Review''
      else ''Rejected'')"

text \<open>
  \<^verbatim>\<open>cleanup_docs.js\<close> holds an earlier version of the same server. Its submit handler
  computes the status with other thresholds.
\<close>

definition decide_older :: "int \<Rightarrow> string" where
  "decide_older score =
     (if score \<ge> 750 then ''Approved''
      else if score \<ge> 600 then ''Manual Review''
      else ''Rejected'')"

text \<open>
  The request body. \<open>customerId\<close> and \<open>score\<close> are the JSON numbers the client sends
  (\<^verbatim>\<open>Number\<close> is the identity on a number); \<open>breakdown\<close> and \<open>language\<close> may be
  absent.
\<close>

record submit_request =
  customerId :: int
  score :: int
  answers :: json
  breakdown :: "json option"
  language :: "string option"

text \<open>\<^verbatim>\<open>language || 'en'\<close>: an absent or empty string is falsy.\<close>

definition language_or_en :: "string option \<Rightarrow> string" where
  "language_or_en l = (case l of None \<Rightarrow> ''en'' | Some t \<Rightarrow> if t = [] then ''en'' else t)"

text \<open>
  The handler makes two store calls, each awaited on its own and neither inside a
  transaction. \<open>submit_steps\<close> returns the stores committed by the calls that succeeded, in
  order, and the response; \<open>t1\<close> is the store's clock at the insert and \<open>t2\<close> the
  server's clock at the update. An error of either call is caught and answered with status
  500.
\<close>

definition submit_steps ::
  "db \<Rightarrow> timestamp \<Rightarrow> timestamp \<Rightarrow> submit_request \<Rightarrow> db list \<times> response" where
  "submit_steps s t1 t2 r =
     (let status = decide (score r) in
      case assessment_create s t1 (customerId r) (score r) (answers r) (breakdown r) status
             (language_or_en (language r)) of
        Inl e \<Rightarrow> ([], (500, Error (''Failed to submit assessment: '' @ err_message e)))
      | Inr (s1, newAssessment) \<Rightarrow>
          (case customer_touch s1 (customerId r) t2 of
             Inl e \<Rightarrow> ([s1], (500, Error (''Failed to submit assessment: '' @ err_message e)))
           | Inr s2 \<Rightarrow>
               ([s1, s2],
                (201, SubmitOk ''Assessment submitted successfully!'' newAssessment))))"

text \<open>The row that the insert of the handler writes.\<close>

definition new_assessment :: "db \<Rightarrow> timestamp \<Rightarrow> submit_request \<Rightarrow> assessment" where
  "new_assessment s t1 r =
     \<lparr> a_id = assessment_seq s + 1, a_score = score r, a_status = decide (score r),
       a_answers = answers r, a_breakdown = breakdown r, a_customerId = customerId r,
       a_language = language_or_en (language r), a_createdAt = t1 \<rparr>"

text \<open>The response and the store once the handler has returned.\<close>

definition submit :: "db \<Rightarrow> timestamp \<Rightarrow> timestamp \<Rightarrow> submit_request \<Rightarrow> response \<times> db" where
  "submit s t1 t2 r = (let (steps, resp) = submit_steps s t1 t2 r in (resp, last (s # steps)))"

section \<open>Strings and numbers of the runtime\<close>

text \<open>
  \<^verbatim>\<open>Number(s)\<close> on a string, for the decimal integers: blanks around the numeral are
  dropped, the empty string is 0, a sign may come first. Every other string is \<open>None\<close>: it
  is \<^verbatim>\<open>NaN\<close>, or a spelling (fraction, exponent, hexadecimal) that this model does not
  read.
\<close>

definition digit_val :: "char \<Rightarrow> nat option" where
  "digit_val c =
     (if c \<in> set ''0123456789''
      then Some (length (takeWhile (\<lambda>d. d \<noteq> c) ''0123456789''))
      else None)"

fun digits_val :: "nat \<Rightarrow> string \<Rightarrow> nat option" where
  "digits_val acc [] = Some acc"
| "digits_val acc (c # cs) =
     (case digit_val c of None \<Rightarrow> None | Some d \<Rightarrow> digits_val (10 * acc + d) cs)"

definition is_blank :: "char \<Rightarrow> bool" where
  "is_blank c =
     (c = CHR '' '' \<or> c = CHR 0x09 \<or> c = CHR 0x0A \<or> c = CHR 0x0B \<or> c = CHR 0x0C \<or>
      c = CHR 0x0D)"

definition trim :: "string \<Rightarrow> string" where
  "trim s = rev (dropWhile is_blank (rev (dropWhile is_blank s)))"

definition js_Number :: "string \<Rightarrow> int option" where
  "js_Number s =
     (let t = trim s in
      if t = [] then Some 0
      else if hd t = CHR ''-'' then
        (if tl t = [] then None else map_option (\<lambda>n. - int n) (digits_val 0 (tl t)))
      else if hd t = CHR ''+'' then
        (if tl t = [] then None else map_option int (digits_val 0 (tl t)))
      else map_option int (digits_val 0 t))"

text \<open>The decimal text of a number, as a template literal renders it.\<close>

definition digit_char :: "nat \<Rightarrow> char" where
  "digit_char d = ''0123456789'' ! d"

fun string_of_nat :: "nat \<Rightarrow> string" where
  "string_of_nat n =
     (if n < 10 then [digit_char n] else string_of_nat (n div 10) @ [digit_char (n mod 10)])"

declare string_of_nat.simps [simp del]

text \<open>\<^verbatim>\<open>!v\<close> is false exactly for a string that is present and not empty.\<close>

definition truthy :: "string option \<Rightarrow> bool" where
  "truthy v = (case v of None \<Rightarrow> False | Some t \<Rightarrow> t \<noteq> [])"

text \<open>
  \<^verbatim>\<open>text.indexOf(c)\<close> and \<^verbatim>\<open>text.lastIndexOf(c)\<close> for a single character: the index
  of the first, of the last occurrence, or \<open>-1\<close>.
\<close>

definition indexOf :: "string \<Rightarrow> char \<Rightarrow> int" where
  "indexOf text c =
     (if c \<in> set text then int (length (takeWhile (\<lambda>x. x \<noteq> c) text)) else - 1)"

definition lastIndexOf :: "string \<Rightarrow> char \<Rightarrow> int" where
  "lastIndexOf text c =
     (if c \<in> set text
      then int (length text) - 1 - int (length (takeWhile (\<lambda>x. x \<noteq> c) (rev text)))
      else - 1)"

text \<open>
  \<^verbatim>\<open>text.substring(a, b)\<close>: both indices are clamped to the string, and swapped when the
  first is the larger.
\<close>

definition substring :: "string \<Rightarrow> int \<Rightarrow> int \<Rightarrow> string" where
  "substring text a b =
     (let n = int (length text);
          a' = min (max a 0) n;
          b' = min (max b 0) n;
          lo = min a' b';
          hi = max a' b'
      in take (nat (hi - lo)) (drop (nat lo) text))"

text \<open>\<^verbatim>\<open>s.includes(p)\<close>: \<open>p\<close> occurs in \<open>s\<close> as a block.\<close>

fun includes_str :: "string \<Rightarrow> string \<Rightarrow> bool" where
  "includes_str [] p = (p = [])"
| "includes_str (c # cs) p = (take (length p) (c # cs) = p \<or> includes_str cs p)"

text \<open>\<^verbatim>\<open>context.replace(/ing/g, 'e')\<close>: every \<^verbatim>\<open>ing\<close>, left to right, becomes \<^verbatim>\<open>e\<close>.\<close>

function replace_ing :: "string \<Rightarrow> string" where
  "replace_ing s =
     (if s = [] then []
      else if take 3 s = ''ing'' then CHR ''e'' # replace_ing (drop 3 s)
      else hd s # replace_ing (tl s))"
  by pat_completeness auto
termination
  by (relation "measure length") auto

declare replace_ing.simps [simp del]

text \<open>\<^verbatim>\<open>ids.join(', ')\<close>.\<close>

fun join :: "string list \<Rightarrow> string" where
  "join [] = []"
| "join [x] = x"
| "join (x # y # ys) = x @ '', '' @ join (y # ys)"

section \<open>Status updates\<close>

text \<open>
  \<^verbatim>\<open>prisma.assessment.update({ where: { id }, data: { status } })\<close>. The key comes from
  \<^verbatim>\<open>Number\<close> of the URL parameter; a key that is no number is refused by the mapper, a
  key that no row has makes the update fail. The updated row is returned.
\<close>

definition assessment_update_status ::
  "db \<Rightarrow> int option \<Rightarrow> string \<Rightarrow> js_error + (db \<times> assessment)" where
  "assessment_update_status s key st =
     (case key of
        None \<Rightarrow> Inl (validation_error ''id'')
      | Some n \<Rightarrow>
          (case find (\<lambda>a. a_id a = n) (assessments s) of
             None \<Rightarrow> Inl record_not_found_error
           | Some a \<Rightarrow>
               Inr (s\<lparr> assessments :=
                         map (\<lambda>x. if a_id x = n then x\<lparr> a_status := st \<rparr> else x)
                           (assessments s) \<rparr>,
                    a\<lparr> a_status := st \<rparr>)))"

text \<open>\<^verbatim>\<open>PATCH /api/assessments/:id/status\<close> with the body's \<open>status\<close> string.\<close>

definition update_status :: "db \<Rightarrow> string \<Rightarrow> string \<Rightarrow> response \<times> db" where
  "update_status s id_param st =
     (case assessment_update_status s (js_Number id_param) st of
        Inl e \<Rightarrow> ((500, Error ''Failed to update status.''), s)
      | Inr (s', updatedAssessment) \<Rightarrow>
          ((200, StatusOk ''Status updated successfully.'' updatedAssessment), s'))"

section \<open>Messages and documents\<close>

text \<open>
  \<^verbatim>\<open>prisma.message.create\<close> and \<^verbatim>\<open>prisma.document.create\<close>: both tables carry a
  foreign key to Assessment.
\<close>

definition message_create ::
  "db \<Rightarrow> timestamp \<Rightarrow> int option \<Rightarrow> string \<Rightarrow> string \<Rightarrow> js_error + (db \<times> message)" where
  "message_create s now key sender txt =
     (case key of
        None \<Rightarrow> Inl (validation_error ''assessmentId'')
      | Some n \<Rightarrow>
          if n \<notin> a_id ` set (assessments s)
          then Inl (foreign_key_error ''Message_assessmentId_fkey'')
          else
            let row = \<lparr> m_id = message_seq s + 1, m_sender = sender, m_text = txt,
                        m_createdAt = now, m_assessmentId = n \<rparr>
            in Inr (s\<lparr> messages := messages s @ [row], message_seq := message_seq s + 1 \<rparr>,
                    row))"

definition document_create ::
  "db \<Rightarrow> timestamp \<Rightarrow> string \<Rightarrow> string \<Rightarrow> string \<Rightarrow> int option \<Rightarrow> string option
     \<Rightarrow> js_error + (db \<times> document)" where
  "document_create s now fileName originalName filePath key dt =
     (case key of
        None \<Rightarrow> Inl (validation_error ''assessmentId'')
      | Some n \<Rightarrow>
          if n \<notin> a_id ` set (assessments s)
          then Inl (foreign_key_error ''Document_assessmentId_fkey'')
          else
            let row = \<lparr> d_id = document_seq s + 1, d_fileName = fileName,
                        d_originalName = originalName, d_filePath = filePath, d_docType = dt,
                        d_uploadDate = now, d_assessmentId = n \<rparr>
            in Inr (s\<lparr> documents := documents s @ [row], document_seq := document_seq s + 1 \<rparr>,
                    row))"

text \<open>\<^verbatim>\<open>POST /api/assessments/:id/message\<close>.\<close>

definition post_message ::
  "db \<Rightarrow> timestamp \<Rightarrow> string \<Rightarrow> string \<Rightarrow> string \<Rightarrow> response \<times> db" where
  "post_message s now id_param sender txt =
     (case message_create s now (js_Number id_param) sender txt of
        Inl e \<Rightarrow> ((500, Error ''Failed to send message.''), s)
      | Inr (s', newMessage) \<Rightarrow> ((201, MessageOk ''Message sent successfully.'' newMessage), s'))"

text \<open>
  \<^verbatim>\<open>POST /api/assessments/:id/request-docs\<close>. The message text is
  \<^verbatim>\<open>JSON.stringify\<close> of the tagged request; the serialiser is the runtime's and is a
  parameter here. An absent \<open>docTypes\<close> leaves the property out.
\<close>

definition request_docs ::
  "(json \<Rightarrow> string) \<Rightarrow> db \<Rightarrow> timestamp \<Rightarrow> string \<Rightarrow> json option \<Rightarrow> response \<times> db" where
  "request_docs stringify s now id_param docTypes =
     (let messageText =
            stringify (JObj ((''type'', JStr ''document_request'') #
                             (case docTypes of None \<Rightarrow> [] | Some d \<Rightarrow> [(''docTypes'', d)])))
      in case message_create s now (js_Number id_param) ''Bank Manager'' messageText of
           Inl e \<Rightarrow> ((500, Error ''Failed to send document request.''), s)
         | Inr (s', newMessage) \<Rightarrow>
             ((201, MessageOk ''Document request sent successfully.'' newMessage), s'))"

text \<open>
  \<^verbatim>\<open>POST /api/documents/upload\<close>. \<open>req_file\<close> is what the upload middleware leaves in
  \<^verbatim>\<open>req.file\<close> (the stored name it chose and the client's name for the file); the two
  form fields are strings when present.
\<close>

record upload_file =
  filename :: string
  originalname :: string

record upload_request =
  req_file :: "upload_file option"
  assessmentId :: "string option"
  docType :: "string option"

text \<open>\<^verbatim>\<open>docType || 'unspecified type'\<close>.\<close>

definition docType_or_unspecified :: "string option \<Rightarrow> string" where
  "docType_or_unspecified dt = (if truthy dt then the dt else ''unspecified type'')"

definition upload_message_text :: "string \<Rightarrow> string option \<Rightarrow> string" where
  "upload_message_text originalName dt =
     ''Customer uploaded a document: '' @ [CHR 0x22] @ originalName @ [CHR 0x22] @ '' ('' @
       docType_or_unspecified dt @ '').''"

text \<open>The row that the upload handler inserts into Document.\<close>

definition new_document ::
  "db \<Rightarrow> timestamp \<Rightarrow> upload_file \<Rightarrow> int \<Rightarrow> string option \<Rightarrow> document" where
  "new_document s t1 f n dt =
     \<lparr> d_id = document_seq s + 1, d_fileName = filename f, d_originalName = originalname f,
       d_filePath = ''uploads/'' @ filename f, d_docType = dt, d_uploadDate = t1,
       d_assessmentId = n \<rparr>"

text \<open>
  As for \<open>submit_steps\<close>: the stores committed by the two store calls, and the response.
\<close>

definition upload_steps ::
  "db \<Rightarrow> timestamp \<Rightarrow> timestamp \<Rightarrow> upload_request \<Rightarrow> db list \<times> response" where
  "upload_steps s t1 t2 r =
     (case (req_file r, assessmentId r) of
        (Some f, Some aid) \<Rightarrow>
          if \<not> truthy (assessmentId r) then ([], (400, Error ''No file or assessment ID provided.''))
          else
            (case document_create s t1 (filename f) (originalname f) (''uploads/'' @ filename f)
                    (js_Number aid) (docType r) of
               Inl e \<Rightarrow> ([], (500, Error ''Failed to upload document.''))
             | Inr (s1, newDocument) \<Rightarrow>
                 (let messageText = upload_message_text (originalname f) (docType r) in
                  case message_create s1 t2 (js_Number aid) ''System'' messageText of
                    Inl e \<Rightarrow> ([s1], (500, Error ''Failed to upload document.''))
                  | Inr (s2, _) \<Rightarrow>
                      ([s1, s2], (201, UploadOk ''Document uploaded successfully.'' newDocument))))
      | _ \<Rightarrow> ([], (400, Error ''No file or assessment ID provided.'')))"

definition upload :: "db \<Rightarrow> timestamp \<Rightarrow> timestamp \<Rightarrow> upload_request \<Rightarrow> response \<times> db" where
  "upload s t1 t2 r = (let (steps, resp) = upload_steps s t1 t2 r in (resp, last (s # steps)))"

text \<open>
  \<^verbatim>\<open>GET /api/assessments/:id/messages\<close>:
  \<^verbatim>\<open>findMany({ where: { assessmentId }, orderBy: { createdAt: 'asc' } })\<close>. The store
  fixes no order among rows with equal timestamps; the model keeps them in table order.
\<close>

definition message_findMany :: "db \<Rightarrow> int option \<Rightarrow> js_error + message list" where
  "message_findMany s key =
     (case key of
        None \<Rightarrow> Inl (validation_error ''assessmentId'')
      | Some n \<Rightarrow> Inr (sort_key m_createdAt (filter (\<lambda>m. m_assessmentId m = n) (messages s))))"

definition getMessages :: "db \<Rightarrow> string \<Rightarrow> response" where
  "getMessages s id_param =
     (case message_findMany s (js_Number id_param) of
        Inl e \<Rightarrow> (500, Error ''Failed to retrieve messages.'')
      | Inr ms \<Rightarrow> (200, Messages ms))"

text \<open>
  The three operations that add a message to a thread, each with the clock readings it
  makes, and their execution in sequence.
\<close>

datatype thread_event =
    PostMessage timestamp string string string
  | RequestDocs timestamp string "json option"
  | Upload timestamp timestamp upload_request

fun thread_step :: "(json \<Rightarrow> string) \<Rightarrow> db \<Rightarrow> thread_event \<Rightarrow> db" where
  "thread_step stringify s (PostMessage now id_param sender txt) = snd (post_message s now id_param sender txt)"
| "thread_step stringify s (RequestDocs now id_param docTypes) =
     snd (request_docs stringify s now id_param docTypes)"
| "thread_step stringify s (Upload t1 t2 r) = snd (upload s t1 t2 r)"

definition thread_run :: "(json \<Rightarrow> string) \<Rightarrow> db \<Rightarrow> thread_event list \<Rightarrow> db" where
  "thread_run stringify s evs = foldl (thread_step stringify) s evs"

section \<open>Dynamic questions\<close>

text \<open>
  \<open>handleGeminiError\<close>: an error counts as a rate limit when its \<open>status\<close> is 429 or
  when \<^verbatim>\<open>429\<close> occurs in its string form; the answer is then status 429, and status
  500 with a text made from \<open>context\<close> otherwise.
\<close>

definition handleGeminiError :: "js_error \<Rightarrow> string \<Rightarrow> response" where
  "handleGeminiError error context =
     (let isRateLimitError = (err_status error = Some 429 \<or> includes_str (toString error) ''429'')
      in if isRateLimitError
         then (429, Error (''Could not complete request due to high traffic '' @
                           ''(API rate limit exceeded). Please try again later.''))
         else (500, Error (''Failed to '' @ replace_ing context)))"

text \<open>
  The request body of \<^verbatim>\<open>POST /api/generate-questions\<close>, and the prompt sent to the
  completion service. The prompt is a fixed template around two values, the name of the target
  language and the joined list of excluded topics; it is represented by these two.
\<close>

record questions_request =
  coreQuestionIds :: "string list option"
  q_language :: "string option"

record prompt =
  targetLanguage :: string
  excludedTopics :: string

definition languageMap :: "string \<Rightarrow> string option" where
  "languageMap l =
     (if l = ''en'' then Some ''English''
      else if l = ''hi'' then Some ''Hindi''
      else if l = ''te'' then Some ''Telugu''
      else None)"

text \<open>\<^verbatim>\<open>languageMap[language] || 'English'\<close>.\<close>

definition target_language :: "string option \<Rightarrow> string" where
  "target_language l =
     (case l of
        None \<Rightarrow> ''English''
      | Some k \<Rightarrow> (case languageMap k of None \<Rightarrow> ''English'' | Some n \<Rightarrow> n))"

text \<open>
  The extraction of the JSON array from the service's text (the lines between the call of the
  service and \<^verbatim>\<open>JSON.parse\<close>), under the name the specification gives it.
\<close>

definition extractJsonArray :: "string \<Rightarrow> js_error + string" where
  "extractJsonArray text =
     (let jsonStart = indexOf text CHR ''['';
          jsonEnd = lastIndexOf text CHR '']''
      in if jsonStart = - 1 \<or> jsonEnd = - 1
         then Inl (JsError ''Error'' None ''AI response did not contain a valid JSON array.'')
         else Inr (substring text jsonStart (jsonEnd + 1)))"

text \<open>
  \<^verbatim>\<open>q.id = `dynamic_question_${index + 1}`\<close> on one element. On an object the property
  is replaced where it stands, or added last. On \<^verbatim>\<open>null\<close> the assignment throws. On a
  number, a string or a boolean it does nothing (the file is not in strict mode), and on an
  array it sets a property that is not serialised.
\<close>

fun set_id :: "nat \<Rightarrow> json \<Rightarrow> js_error + json" where
  "set_id index (JObj ps) =
     Inr (JObj (AList.update ''id'' (JStr (''dynamic_question_'' @ string_of_nat (index + 1))) ps))"
| "set_id index JNull =
     Inl (JsError ''TypeError'' None ''Cannot set properties of null (setting id)'')"
| "set_id index q = Inr q"

text \<open>The \<^verbatim>\<open>forEach\<close> loop from a given index on; it stops at the first throw.\<close>

fun forEach_set_id :: "nat \<Rightarrow> json list \<Rightarrow> js_error + json list" where
  "forEach_set_id index [] = Inr []"
| "forEach_set_id index (q # qs) =
     (case set_id index q of
        Inl e \<Rightarrow> Inl e
      | Inr q' \<Rightarrow>
          (case forEach_set_id (index + 1) qs of Inl e \<Rightarrow> Inl e | Inr qs' \<Rightarrow> Inr (q' # qs')))"

text \<open>
  What the loop leaves of the item at a given index, when the item is not \<^verbatim>\<open>null\<close>.
\<close>

definition renumbered_item :: "nat \<times> json \<Rightarrow> json" where
  "renumbered_item iq =
     (case snd iq of
        JObj ps \<Rightarrow>
          JObj (AList.update ''id''
                  (JStr (''dynamic_question_'' @ string_of_nat (fst iq + 1))) ps)
      | q \<Rightarrow> q)"

text \<open>\<^verbatim>\<open>jsonResponse.forEach(...)\<close>: only an array has the method.\<close>

definition renumber :: "json \<Rightarrow> js_error + json" where
  "renumber jsonResponse =
     (case jsonResponse of
        JArr qs \<Rightarrow> (case forEach_set_id 0 qs of Inl e \<Rightarrow> Inl e | Inr qs' \<Rightarrow> Inr (JArr qs'))
      | JNull \<Rightarrow>
          Inl (JsError ''TypeError'' None ''Cannot read properties of null (reading forEach)'')
      | _ \<Rightarrow> Inl (JsError ''TypeError'' None ''jsonResponse.forEach is not a function''))"

text \<open>
  The handler. The completion service and \<^verbatim>\<open>JSON.parse\<close> are parameters:
  \<open>generateContent\<close> answers a prompt with the text of the completion or with the error it
  throws, \<open>JSON_parse\<close> answers with the value or with the message of its
  \<^verbatim>\<open>SyntaxError\<close>. The handler returns its response and the prompts it sent to the
  service, in order.
\<close>

definition generate_questions ::
  "(prompt \<Rightarrow> js_error + string) \<Rightarrow> (string \<Rightarrow> string + json) \<Rightarrow> questions_request
     \<Rightarrow> response \<times> prompt list" where
  "generate_questions generateContent JSON_parse r =
     (let context = ''generating dynamic questions'' in
      case coreQuestionIds r of
        None \<Rightarrow>
          (handleGeminiError
             (JsError ''TypeError'' None ''Cannot read properties of undefined (reading join)'')
             context, [])
      | Some ids \<Rightarrow>
          (let p = \<lparr> targetLanguage = target_language (q_language r),
                     excludedTopics = join ids \<rparr>
           in case generateContent p of
                Inl error \<Rightarrow> (handleGeminiError error context, [p])
              | Inr text \<Rightarrow>
                  (case extractJsonArray text of
                     Inl error \<Rightarrow> (handleGeminiError error context, [p])
                   | Inr cleanedText \<Rightarrow>
                       (case JSON_parse cleanedText of
                          Inl m \<Rightarrow> (handleGeminiError (JsError ''SyntaxError'' None m) context, [p])
                        | Inr jsonResponse \<Rightarrow>
                            (case renumber jsonResponse of
                               Inl error \<Rightarrow> (handleGeminiError error context, [p])
                             | Inr j \<Rightarrow> ((200, Questions j), [p]))))))"

section \<open>Example stores and requests\<close>

definition example_customer :: customer where
  "example_customer =
     \<lparr> c_id = 1, c_fname = ''Asha'', c_lname = ''Rao'', c_gender = ''F'', c_age = 30,
       c_mobile = ''9000000000'', c_email = ''asha@example.org'', c_pan = ''ABCDE1234F'',
       c_accountNumber = ''0001'', c_password = ''hash'', c_createdAt = 5,
       c_lastAccessed = None \<rparr>"

definition example_db :: db where
  "example_db =
     \<lparr> customers = [example_customer], assessments = [], messages = [], documents = [],
       assessment_seq = 0, message_seq = 0, document_seq = 0 \<rparr>"

definition example_submit :: submit_request where
  "example_submit =
     \<lparr> customerId = 1, score = 699, answers = JObj [(''q1'', JNum ''1'')], breakdown = None,
       language = Some ''hi'' \<rparr>"

definition orphan_submit :: submit_request where
  "orphan_submit = example_submit\<lparr> customerId := 7 \<rparr>"

definition example_assessment :: assessment where
  "example_assessment =
     \<lparr> a_id = 1, a_score = 650, a_status = ''Manual Review'', a_answers = JObj [],
       a_breakdown = None, a_customerId = 1, a_language = ''en'', a_createdAt = 10 \<rparr>"

definition other_assessment :: assessment where
  "other_assessment = example_assessment\<lparr> a_id := 2, a_score := 720, a_status := ''Approved'' \<rparr>"

definition example_message :: "int \<Rightarrow> timestamp \<Rightarrow> int \<Rightarrow> message" where
  "example_message k t a =
     \<lparr> m_id = k, m_sender = ''Customer'', m_text = ''hello'', m_createdAt = t,
       m_assessmentId = a \<rparr>"

definition example_thread_db :: db where
  "example_thread_db =
     \<lparr> customers = [example_customer], assessments = [example_assessment, other_assessment],
       messages = [example_message 1 30 1, example_message 2 20 2, example_message 3 10 1],
       documents = [], assessment_seq = 2, message_seq = 3, document_seq = 0 \<rparr>"

definition example_upload :: upload_request where
  "example_upload =
     \<lparr> req_file = Some \<lparr> filename = ''document-1-u.pdf'', originalname = ''pan.pdf'' \<rparr>,
       assessmentId = Some ''1'', docType = Some ''PAN'' \<rparr>"

text \<open>
  A request for questions, the prompt it leads to, a completion that wraps an array of two
  questions in prose, and what \<^verbatim>\<open>JSON.parse\<close> answers on that array (every other text
  is refused by this stand-in).
\<close>

definition example_questions_request :: questions_request where
  "example_questions_request =
     \<lparr> coreQuestionIds = Some [''income'', ''savings''], q_language = Some ''hi'' \<rparr>"

definition example_prompt :: prompt where
  "example_prompt = \<lparr> targetLanguage = ''Hindi'', excludedTopics = ''income, savings'' \<rparr>"

definition example_array :: string where
  \<open>example_array = ''[{"id":"x","question":"A?"},{"question":"B?"}]''\<close>

definition example_completion :: string where
  "example_completion = ''Here is the result: '' @ example_array @ '' Thanks!''"

definition example_parse :: "string \<Rightarrow> string + json" where
  "example_parse t =
     (if t = example_array
      then Inr (JArr [JObj [(''id'', JStr ''x''), (''question'', JStr ''A?'')],
                      JObj [(''question'', JStr ''B?'')]])
      else Inl ''Unexpected token'')"

definition rate_limit_error :: js_error where
  "rate_limit_error =
     JsError ''Error'' (Some 429) ''[GoogleGenerativeAI Error]: Too Many Requests''"

definition unavailable_error :: js_error where
  "unavailable_error =
     JsError ''Error'' (Some 503) ''[GoogleGenerativeAI Error]: Service Unavailable''"

text \<open>
  An error of the service that is no rate limit, with \<^verbatim>\<open>429\<close> inside a number of its
  text.
\<close>

definition internal_error :: js_error where
  "internal_error =
     JsError ''Error'' (Some 500)
       ''[500 Internal Server Error] An internal error has occurred (request 4290)''"

text \<open>
  Two more completions: an array whose second item is a number, and an array of a number
  and a string; and what \<^verbatim>\<open>JSON.parse\<close> answers on the two arrays.
\<close>

definition mixed_array :: string where
  \<open>mixed_array = ''[{"id":"x","question":"A?"},1,{"question":"B?"}]''\<close>

definition mixed_completion :: string where
  "mixed_completion = ''Here is the result: '' @ mixed_array @ '' Thanks!''"

definition plain_array :: string where
  \<open>plain_array = ''[1,"s"]''\<close>

definition plain_completion :: string where
  "plain_completion = ''Sure: '' @ plain_array"

definition mixed_parse :: "string \<Rightarrow> string + json" where
  "mixed_parse t =
     (if t = mixed_array
      then Inr (JArr [JObj [(''id'', JStr ''x''), (''question'', JStr ''A?'')], JNum ''1'',
                      JObj [(''question'', JStr ''B?'')]])
      else if t = plain_array then Inr (JArr [JNum ''1'', JStr ''s''])
      else Inl ''Unexpected token'')"

section \<open>Properties of the submit handler\<close>

lemma customer_touch_known:
  "cid \<in> c_id ` set (customers s) \<Longrightarrow>
   customer_touch s cid now =
     Inr (s\<lparr> customers := map (\<lambda>c. if c_id c = cid then c\<lparr> c_lastAccessed := Some now \<rparr> else c)
                       (customers s) \<rparr>)"
  by (simp add: customer_touch_def)

lemma assessment_create_cases:
  "assessment_create s now cid sc ans brk st lang =
     (if cid \<in> c_id ` set (customers s)
      then Inr (s\<lparr> assessments := assessments s @
                     [\<lparr> a_id = assessment_seq s + 1, a_score = sc, a_status = st, a_answers = ans,
                        a_breakdown = brk, a_customerId = cid, a_language = lang,
                        a_createdAt = now \<rparr>],
                   assessment_seq := assessment_seq s + 1 \<rparr>,
                \<lparr> a_id = assessment_seq s + 1, a_score = sc, a_status = st, a_answers = ans,
                  a_breakdown = brk, a_customerId = cid, a_language = lang, a_createdAt = now \<rparr>)
      else Inl (foreign_key_error ''Assessment_customerId_fkey''))"
  by (simp add: assessment_create_def Let_def)

text \<open>The two runs of the handler: the customer exists, or it does not.\<close>

lemma submit_steps_known:
  assumes "customerId r \<in> c_id ` set (customers s)"
  shows "submit_steps s t1 t2 r =
    ([s\<lparr> assessments := assessments s @ [new_assessment s t1 r],
         assessment_seq := assessment_seq s + 1 \<rparr>,
      s\<lparr> assessments := assessments s @ [new_assessment s t1 r],
         assessment_seq := assessment_seq s + 1,
         customers := map (\<lambda>c. if c_id c = customerId r
                                 then c\<lparr> c_lastAccessed := Some t2 \<rparr> else c) (customers s) \<rparr>],
     (201, SubmitOk ''Assessment submitted successfully!'' (new_assessment s t1 r)))"
  using assms
  by (simp add: submit_steps_def assessment_create_cases customer_touch_known
        new_assessment_def Let_def)

lemma submit_steps_unknown:
  assumes "customerId r \<notin> c_id ` set (customers s)"
  shows "submit_steps s t1 t2 r =
           ([], (500, Error (''Failed to submit assessment: '' @
                   err_message (foreign_key_error ''Assessment_customerId_fkey''))))"
  using assms by (simp add: submit_steps_def assessment_create_cases Let_def)

lemma example_known: "customerId example_submit \<in> c_id ` set (customers example_db)"
  by (simp add: example_submit_def example_db_def example_customer_def)

text \<open>
  Claim C1. Whenever a submission with an integer score succeeds, the row it has persisted
  carries that score and a status that is a function of the score alone: \<^verbatim>\<open>Approved\<close>
  from 700 on, \<^verbatim>\<open>Manual Review\<close> from 500 to 699, \<^verbatim>\<open>Rejected\<close> below 500; so 700
  is approved, 699 and 500 go to manual review, and 499 is rejected.
\<close>

theorem submit_status_thresholds:
  assumes "submit s t1 t2 r = ((201, SubmitOk msg a), s')"
  shows "a \<in> set (assessments s') \<and> a_score a = score r \<and> a_status a = decide (score r) \<and>
         (score r \<ge> 700 \<longrightarrow> a_status a = ''Approved'') \<and>
         (500 \<le> score r \<and> score r < 700 \<longrightarrow> a_status a = ''Manual Review'') \<and>
         (score r < 500 \<longrightarrow> a_status a = ''Rejected'') \<and>
         decide 700 = ''Approved'' \<and> decide 699 = ''Manual Review'' \<and>
         decide 500 = ''Manual Review'' \<and> decide 499 = ''Rejected''"
proof (cases "customerId r \<in> c_id ` set (customers s)")
  case True
  from assms have a: "a = new_assessment s t1 r"
    and s': "assessments s' = assessments s @ [new_assessment s t1 r]"
    by (auto simp: submit_def submit_steps_known[OF True])
  have "a \<in> set (assessments s')" using a s' by simp
  moreover have "a_score a = score r" "a_status a = decide (score r)"
    using a by (simp_all add: new_assessment_def)
  ultimately show ?thesis by (simp add: decide_def)
next
  case False
  with assms show ?thesis by (simp add: submit_def submit_steps_unknown)
qed

theorem submit_status_thresholds_witness:
  "submit example_db 10 20 example_submit =
     ((201, SubmitOk ''Assessment submitted successfully!''
              (new_assessment example_db 10 example_submit)),
      snd (submit example_db 10 20 example_submit)) \<and>
   score example_submit = 699 \<and>
   a_status (new_assessment example_db 10 example_submit) = ''Manual Review''"
proof -
  have e: "submit example_db 10 20 example_submit =
     ((201, SubmitOk ''Assessment submitted successfully!''
              (new_assessment example_db 10 example_submit)),
      snd (submit example_db 10 20 example_submit))"
    by (simp add: submit_def submit_steps_known[OF example_known])
  have sc: "score example_submit = 699" by (simp add: example_submit_def)
  from submit_status_thresholds[OF e] e sc show ?thesis by simp
qed

text \<open>
  The handler of the older copy decides two of the four boundary scores differently.
\<close>

lemma decide_older_differs:
  "decide_older 700 = ''Manual Review'' \<and> decide 700 = ''Approved'' \<and>
   decide_older 500 = ''Rejected'' \<and> decide 500 = ''Manual Review''"
  by (simp add: decide_def decide_older_def)

text \<open>
  Claim C2, as the handler has it. A submission for a customer that does not exist is
  answered with status 500 and the message of the foreign-key failure of the insert; the
  handler looks no customer up before it writes. No store call commits, and the store is
  left as it was: no assessment row, no change to a customer.
\<close>

theorem submit_unknown_customer:
  assumes "customerId r \<notin> c_id ` set (customers s)"
  shows "submit_steps s t1 t2 r =
           ([], (500, Error (''Failed to submit assessment: '' @
                   err_message (foreign_key_error ''Assessment_customerId_fkey'')))) \<and>
         snd (submit s t1 t2 r) = s"
  using assms
  by (simp add: submit_def submit_steps_unknown)

theorem submit_unknown_customer_witness:
  "customerId orphan_submit \<notin> c_id ` set (customers example_db) \<and>
   snd (submit example_db 10 20 orphan_submit) = example_db"
proof -
  have h: "customerId orphan_submit \<notin> c_id ` set (customers example_db)"
    by (simp add: orphan_submit_def example_submit_def example_db_def example_customer_def)
  from submit_unknown_customer[OF h, of 10 20] h show ?thesis by simp
qed

text \<open>
  Claim C2 as the specification words it asks for a not-found answer from an explicit check.
  For customer 7, which the example store does not have, the answer is the status 500 that
  every store failure gets, carrying the foreign-key error of the insert.
\<close>

theorem submit_unknown_customer_counterexample:
  "fst (submit example_db 10 20 orphan_submit) =
     (500, Error (''Failed to submit assessment: '' @
             err_message (foreign_key_error ''Assessment_customerId_fkey'')))"
  by (simp add: submit_def submit_steps_def assessment_create_def
        orphan_submit_def example_submit_def example_db_def example_customer_def Let_def)

text \<open>
  Claim C3, as the handler has it. A successful submission has persisted both effects when it
  returns, but by two store calls that commit one after the other: the first commits the store
  with the new assessment and every customer as before, the second the store in which the
  owning customer's \<open>lastAccessed\<close> is the time of the call. The other tables are the same
  in both.
\<close>

theorem submit_two_writes:
  assumes "submit_steps s t1 t2 r = (steps, (201, b))"
  shows "\<exists>s1 s2 a. steps = [s1, s2] \<and> b = SubmitOk ''Assessment submitted successfully!'' a \<and>
           assessments s1 = assessments s @ [a] \<and> customers s1 = customers s \<and>
           assessments s2 = assessments s @ [a] \<and>
           customers s2 = map (\<lambda>c. if c_id c = customerId r
                                    then c\<lparr> c_lastAccessed := Some t2 \<rparr> else c) (customers s) \<and>
           customerId r \<in> c_id ` set (customers s) \<and>
           messages s1 = messages s \<and> documents s1 = documents s \<and>
           messages s2 = messages s \<and> documents s2 = documents s"
proof (cases "customerId r \<in> c_id ` set (customers s)")
  case True
  from assms show ?thesis
    unfolding submit_steps_known[OF True] using True by auto
next
  case False
  with assms show ?thesis by (simp add: submit_steps_unknown)
qed

theorem submit_two_writes_witness:
  "\<exists>steps b s1 s2 a. submit_steps example_db 10 20 example_submit = (steps, (201, b)) \<and>
      steps = [s1, s2] \<and> assessments s1 = assessments example_db @ [a] \<and>
      customers s1 = customers example_db \<and>
      customers s2 = map (\<lambda>c. if c_id c = customerId example_submit
                               then c\<lparr> c_lastAccessed := Some 20 \<rparr> else c) (customers example_db)"
proof -
  obtain steps b where e: "submit_steps example_db 10 20 example_submit = (steps, (201, b))"
    by (simp add: submit_steps_known[OF example_known])
  from submit_two_writes[OF e] e show ?thesis by blast
qed

text \<open>
  Claim C3 as the specification words it excludes a state with the assessment saved and the
  customer not touched. The store committed by the first call of the example submission is
  such a state: it holds the new assessment, and its only customer still has no
  \<open>lastAccessed\<close>, which the second call then sets to 20.
\<close>

theorem submit_not_atomic_counterexample:
  "assessments (hd (fst (submit_steps example_db 10 20 example_submit))) =
     [new_assessment example_db 10 example_submit] \<and>
   customers (hd (fst (submit_steps example_db 10 20 example_submit))) = [example_customer] \<and>
   c_lastAccessed example_customer = None \<and>
   map c_lastAccessed (customers (last (fst (submit_steps example_db 10 20 example_submit)))) =
     [Some 20]"
  by (simp add: submit_steps_known[OF example_known])
     (simp add: example_db_def example_customer_def example_submit_def)

section \<open>Properties of the status update\<close>

lemma js_Number_1: "js_Number ''1'' = Some 1"
  by (simp add: js_Number_def trim_def is_blank_def digit_val_def)

lemma js_Number_examples:
  "js_Number '' 12'' = Some 12 \<and> js_Number ''-3'' = Some (- 3) \<and> js_Number ''abc'' = None \<and>
   js_Number '''' = Some 0"
  by (simp add: js_Number_def trim_def is_blank_def digit_val_def)

lemma find_key:
  "n \<in> a_id ` set xs \<Longrightarrow> \<exists>a \<in> set xs. a_id a = n \<and> find (\<lambda>a. a_id a = n) xs = Some a"
  by (induction xs) auto

lemma update_status_known:
  assumes "js_Number id_param = Some n" and "find (\<lambda>a. a_id a = n) (assessments s) = Some a"
  shows "update_status s id_param st =
           ((200, StatusOk ''Status updated successfully.'' (a\<lparr> a_status := st \<rparr>)),
            s\<lparr> assessments := map (\<lambda>x. if a_id x = n then x\<lparr> a_status := st \<rparr> else x)
                                  (assessments s) \<rparr>)"
  by (simp add: update_status_def assessment_update_status_def assms)

lemma example_upload_ok:
  "req_file example_upload = Some \<lparr> filename = ''document-1-u.pdf'', originalname = ''pan.pdf'' \<rparr>"
  "assessmentId example_upload = Some ''1''" "''1'' \<noteq> []"
  "(1::int) \<in> a_id ` set (assessments example_thread_db)"
  by (simp_all add: example_upload_def example_thread_db_def example_assessment_def)

text \<open>
  Claim C10. A status update for an assessment that exists answers 200 with the row whose
  status is the string sent, whatever the string is: nothing compares it with the three
  statuses of the decision. In the store only the Assessment table changes, and in it only
  rows with the given key, and of those only the status: key, score, answers, breakdown,
  customer, language and creation time of every row stay, and so do all customers, messages
  and documents.
\<close>

theorem update_status_frame:
  assumes "js_Number id_param = Some n" and "n \<in> a_id ` set (assessments s)"
  shows "(\<exists>a \<in> set (assessments s). a_id a = n \<and>
            fst (update_status s id_param st) =
              (200, StatusOk ''Status updated successfully.'' (a\<lparr> a_status := st \<rparr>))) \<and>
         customers (snd (update_status s id_param st)) = customers s \<and>
         messages (snd (update_status s id_param st)) = messages s \<and>
         documents (snd (update_status s id_param st)) = documents s \<and>
         length (assessments (snd (update_status s id_param st))) = length (assessments s) \<and>
         (\<forall>i < length (assessments s).
            a_id (assessments (snd (update_status s id_param st)) ! i) =
              a_id (assessments s ! i) \<and>
            a_score (assessments (snd (update_status s id_param st)) ! i) =
              a_score (assessments s ! i) \<and>
            a_answers (assessments (snd (update_status s id_param st)) ! i) =
              a_answers (assessments s ! i) \<and>
            a_breakdown (assessments (snd (update_status s id_param st)) ! i) =
              a_breakdown (assessments s ! i) \<and>
            a_customerId (assessments (snd (update_status s id_param st)) ! i) =
              a_customerId (assessments s ! i) \<and>
            a_language (assessments (snd (update_status s id_param st)) ! i) =
              a_language (assessments s ! i) \<and>
            a_createdAt (assessments (snd (update_status s id_param st)) ! i) =
              a_createdAt (assessments s ! i) \<and>
            (a_id (assessments s ! i) = n \<longrightarrow>
               a_status (assessments (snd (update_status s id_param st)) ! i) = st) \<and>
            (a_id (assessments s ! i) \<noteq> n \<longrightarrow>
               assessments (snd (update_status s id_param st)) ! i = assessments s ! i))"
proof -
  from find_key[OF assms(2)] obtain a where a: "a \<in> set (assessments s)" "a_id a = n"
    "find (\<lambda>a. a_id a = n) (assessments s) = Some a" by blast
  note u = update_status_known[OF assms(1) a(3), of st]
  have r: "fst (update_status s id_param st) =
             (200, StatusOk ''Status updated successfully.'' (a\<lparr> a_status := st \<rparr>))"
    by (simp add: u)
  have e: "snd (update_status s id_param st) =
             s\<lparr> assessments := map (\<lambda>x. if a_id x = n then x\<lparr> a_status := st \<rparr> else x)
                                   (assessments s) \<rparr>"
    by (simp add: u)
  have "\<exists>a \<in> set (assessments s). a_id a = n \<and>
            fst (update_status s id_param st) =
              (200, StatusOk ''Status updated successfully.'' (a\<lparr> a_status := st \<rparr>))"
    using a(1,2) r by blast
  then show ?thesis unfolding e by simp
qed

theorem update_status_frame_witness:
  "js_Number ''1'' = Some 1 \<and> 1 \<in> a_id ` set (assessments example_thread_db) \<and>
   (\<exists>a \<in> set (assessments example_thread_db). a_id a = 1 \<and>
      fst (update_status example_thread_db ''1'' ''Escalated'') =
        (200, StatusOk ''Status updated successfully.'' (a\<lparr> a_status := ''Escalated'' \<rparr>))) \<and>
   messages (snd (update_status example_thread_db ''1'' ''Escalated'')) =
     messages example_thread_db"
  using update_status_frame[OF js_Number_1 example_upload_ok(4), of "''Escalated''"]
    js_Number_1 example_upload_ok(4)
  by blast

lemma update_status_example:
  "update_status example_thread_db ''1'' ''Escalated'' =
     ((200, StatusOk ''Status updated successfully.''
              (example_assessment\<lparr> a_status := ''Escalated'' \<rparr>)),
      example_thread_db\<lparr> assessments :=
        [example_assessment\<lparr> a_status := ''Escalated'' \<rparr>, other_assessment] \<rparr>)"
proof -
  have "find (\<lambda>a. a_id a = 1) (assessments example_thread_db) = Some example_assessment"
    by (simp add: example_thread_db_def example_assessment_def)
  from update_status_known[OF js_Number_1 this, of "''Escalated''"] show ?thesis
    by (simp add: example_thread_db_def example_assessment_def other_assessment_def)
qed

section \<open>Properties of the upload handler\<close>

lemma document_create_cases:
  "document_create s now fn orig fp key dt =
     (case key of None \<Rightarrow> Inl (validation_error ''assessmentId'')
      | Some n \<Rightarrow>
        if n \<in> a_id ` set (assessments s)
        then Inr (s\<lparr> documents := documents s @
                       [\<lparr> d_id = document_seq s + 1, d_fileName = fn, d_originalName = orig,
                          d_filePath = fp, d_docType = dt, d_uploadDate = now,
                          d_assessmentId = n \<rparr>],
                     document_seq := document_seq s + 1 \<rparr>,
                  \<lparr> d_id = document_seq s + 1, d_fileName = fn, d_originalName = orig,
                    d_filePath = fp, d_docType = dt, d_uploadDate = now, d_assessmentId = n \<rparr>)
        else Inl (foreign_key_error ''Document_assessmentId_fkey''))"
  by (simp add: document_create_def Let_def split: option.splits)

lemma message_create_cases:
  "message_create s now key sender txt =
     (case key of None \<Rightarrow> Inl (validation_error ''assessmentId'')
      | Some n \<Rightarrow>
        if n \<in> a_id ` set (assessments s)
        then Inr (s\<lparr> messages := messages s @
                       [\<lparr> m_id = message_seq s + 1, m_sender = sender, m_text = txt,
                          m_createdAt = now, m_assessmentId = n \<rparr>],
                     message_seq := message_seq s + 1 \<rparr>,
                  \<lparr> m_id = message_seq s + 1, m_sender = sender, m_text = txt,
                    m_createdAt = now, m_assessmentId = n \<rparr>)
        else Inl (foreign_key_error ''Message_assessmentId_fkey''))"
  by (simp add: message_create_def Let_def split: option.splits)

lemma upload_steps_ok:
  assumes "req_file r = Some f" "assessmentId r = Some aid" "aid \<noteq> []"
    "js_Number aid = Some n" "n \<in> a_id ` set (assessments s)"
  shows "upload_steps s t1 t2 r =
     ([s\<lparr> documents := documents s @ [new_document s t1 f n (docType r)],
          document_seq := document_seq s + 1 \<rparr>,
       s\<lparr> documents := documents s @ [new_document s t1 f n (docType r)],
          document_seq := document_seq s + 1,
          messages := messages s @
            [\<lparr> m_id = message_seq s + 1, m_sender = ''System'',
               m_text = upload_message_text (originalname f) (docType r),
               m_createdAt = t2, m_assessmentId = n \<rparr>],
          message_seq := message_seq s + 1 \<rparr>],
      (201, UploadOk ''Document uploaded successfully.'' (new_document s t1 f n (docType r))))"
  using assms
  by (simp add: upload_steps_def truthy_def document_create_cases message_create_cases
        new_document_def Let_def)

lemma upload_steps_fail:
  assumes "req_file r = None \<or> assessmentId r = None \<or> assessmentId r = Some [] \<or>
           (\<exists>aid. assessmentId r = Some aid \<and>
              (js_Number aid = None \<or> (\<exists>n. js_Number aid = Some n \<and> n \<notin> a_id ` set (assessments s))))"
  shows "fst (upload_steps s t1 t2 r) = [] \<and> fst (snd (upload_steps s t1 t2 r)) \<noteq> 201"
  using assms
  by (auto simp: upload_steps_def truthy_def document_create_cases split: option.splits)

lemma upload_steps_cases:
  "(\<exists>f aid n. req_file r = Some f \<and> assessmentId r = Some aid \<and> aid \<noteq> [] \<and>
       js_Number aid = Some n \<and> n \<in> a_id ` set (assessments s)) \<or>
   (fst (upload_steps s t1 t2 r) = [] \<and> fst (snd (upload_steps s t1 t2 r)) \<noteq> 201)"
proof (cases "req_file r")
  case None
  then show ?thesis using upload_steps_fail[of r s t1 t2] by simp
next
  case (Some f)
  show ?thesis
  proof (cases "assessmentId r")
    case None
    then show ?thesis using upload_steps_fail[of r s t1 t2] by simp
  next
    case (Some aid)
    note aid = this
    show ?thesis
    proof (cases "aid = []")
      case True
      then show ?thesis using aid upload_steps_fail[of r s t1 t2] by simp
    next
      case False
      show ?thesis
      proof (cases "js_Number aid")
        case None
        then show ?thesis using aid upload_steps_fail[of r s t1 t2] by simp
      next
        case (Some n)
        show ?thesis
        proof (cases "n \<in> a_id ` set (assessments s)")
          case True
          then show ?thesis using \<open>req_file r = Some f\<close> aid False Some by blast
        next
          case False
          then show ?thesis using aid Some upload_steps_fail[of r s t1 t2] by simp
        qed
      qed
    qed
  qed
qed

text \<open>
  Claim C7. An upload without a file, or with the assessment id absent or empty, is answered
  with status 400 before any store call: no store is committed and the store is left as it
  was, so no document and no message row is created.
\<close>

theorem upload_missing_input:
  assumes "req_file r = None \<or> assessmentId r = None \<or> assessmentId r = Some []"
  shows "upload_steps s t1 t2 r = ([], (400, Error ''No file or assessment ID provided.'')) \<and>
         upload s t1 t2 r = ((400, Error ''No file or assessment ID provided.''), s)"
proof -
  have "upload_steps s t1 t2 r = ([], (400, Error ''No file or assessment ID provided.''))"
    using assms by (auto simp: upload_steps_def truthy_def split: option.splits)
  then show ?thesis by (simp add: upload_def)
qed

theorem upload_missing_input_witness:
  "assessmentId (example_upload\<lparr> assessmentId := Some [] \<rparr>) = Some [] \<and>
   upload example_thread_db 40 41 (example_upload\<lparr> assessmentId := Some [] \<rparr>) =
     ((400, Error ''No file or assessment ID provided.''), example_thread_db)"
  using upload_missing_input[of "example_upload\<lparr> assessmentId := Some [] \<rparr>" example_thread_db 40 41]
  by simp

text \<open>
  Claim C6. Every successful upload appends to the store, besides the document row, one
  message row for the same assessment whose sender is \<^verbatim>\<open>System\<close> and whose text holds
  the original file name in quotes and, in brackets, the document type (or the words
  \<^verbatim>\<open>unspecified type\<close> when the request names none).
\<close>

theorem upload_creates_system_message:
  assumes "upload s t1 t2 r = ((201, b), s')"
  shows "\<exists>f aid d m. req_file r = Some f \<and> assessmentId r = Some aid \<and>
           js_Number aid = Some (d_assessmentId d) \<and>
           b = UploadOk ''Document uploaded successfully.'' d \<and>
           d_originalName d = originalname f \<and> d_docType d = docType r \<and>
           documents s' = documents s @ [d] \<and>
           messages s' = messages s @ [m] \<and>
           m_sender m = ''System'' \<and> m_assessmentId m = d_assessmentId d \<and>
           m_text m = ''Customer uploaded a document: '' @ [CHR 0x22] @ originalname f @
                      [CHR 0x22] @ '' ('' @
                      (case docType r of None \<Rightarrow> ''unspecified type''
                       | Some t \<Rightarrow> if t = [] then ''unspecified type'' else t) @ '').''"
proof -
  from assms have st: "fst (snd (upload_steps s t1 t2 r)) = 201"
    by (simp add: upload_def split: prod.splits)
  with upload_steps_cases[of r s t1 t2] obtain f aid n where
    h: "req_file r = Some f" "assessmentId r = Some aid" "aid \<noteq> []"
       "js_Number aid = Some n" "n \<in> a_id ` set (assessments s)"
    by blast
  let ?d = "new_document s t1 f n (docType r)"
  let ?m = "\<lparr> m_id = message_seq s + 1, m_sender = ''System'',
               m_text = upload_message_text (originalname f) (docType r),
               m_createdAt = t2, m_assessmentId = n \<rparr>"
  from assms have b: "b = UploadOk ''Document uploaded successfully.'' ?d"
    and d: "documents s' = documents s @ [?d]" and m: "messages s' = messages s @ [?m]"
    by (auto simp: upload_def upload_steps_ok[OF h])
  have t: "m_text ?m = ''Customer uploaded a document: '' @ [CHR 0x22] @ originalname f @
                      [CHR 0x22] @ '' ('' @
                      (case docType r of None \<Rightarrow> ''unspecified type''
                       | Some t \<Rightarrow> if t = [] then ''unspecified type'' else t) @ '').''"
    by (simp add: upload_message_text_def docType_or_unspecified_def truthy_def
          split: option.splits)
  have "js_Number aid = Some (d_assessmentId ?d)" "d_originalName ?d = originalname f"
    "d_docType ?d = docType r" "m_sender ?m = ''System''" "m_assessmentId ?m = d_assessmentId ?d"
    using h by (simp_all add: new_document_def)
  with h(1,2) b d m t show ?thesis by blast
qed

theorem upload_creates_system_message_witness:
  "\<exists>b s' m. upload example_thread_db 40 41 example_upload = ((201, b), s') \<and>
      messages s' = messages example_thread_db @ [m] \<and> m_sender m = ''System'' \<and>
      m_text m = ''Customer uploaded a document: '' @ [CHR 0x22] @ ''pan.pdf'' @ [CHR 0x22] @
                 '' (PAN).''"
proof -
  obtain b s' where e: "upload example_thread_db 40 41 example_upload = ((201, b), s')"
    by (simp add: upload_def
          upload_steps_ok[OF example_upload_ok(1,2,3) js_Number_1 example_upload_ok(4)])
  from upload_creates_system_message[OF e] e example_upload_ok(1) show ?thesis
    by (auto simp: example_upload_def)
qed

text \<open>No run of the handler leaves a document without its message.\<close>

lemma upload_document_with_message:
  "documents (snd (upload s t1 t2 r)) \<noteq> documents s \<Longrightarrow> fst (fst (upload s t1 t2 r)) = 201"
  using upload_steps_cases[of r s t1 t2]
  by (auto simp: upload_def upload_steps_ok split: prod.splits)

section \<open>Properties of the message thread\<close>

text \<open>
  Claim C8. After any sequence of plain messages, document requests and uploads, from any
  store, the messages of an assessment are returned with status 200, all of them and no
  others, in non-decreasing order of creation time; when the assessment has none, the list
  is empty.
\<close>

theorem getMessages_sorted:
  assumes "js_Number id_param = Some n"
  shows "\<exists>ms. getMessages (thread_run stringify s evs) id_param = (200, Messages ms) \<and>
           sorted (map m_createdAt ms) \<and>
           mset ms = mset (filter (\<lambda>m. m_assessmentId m = n)
                             (messages (thread_run stringify s evs))) \<and>
           (n \<notin> m_assessmentId ` set (messages (thread_run stringify s evs)) \<longrightarrow> ms = [])"
proof -
  let ?s = "thread_run stringify s evs"
  let ?ms = "sort_key m_createdAt (filter (\<lambda>m. m_assessmentId m = n) (messages ?s))"
  have g: "getMessages ?s id_param = (200, Messages ?ms)"
    by (simp add: getMessages_def message_findMany_def assms)
  have e: "n \<notin> m_assessmentId ` set (messages ?s) \<longrightarrow> ?ms = []"
  proof
    assume "n \<notin> m_assessmentId ` set (messages ?s)"
    then have "filter (\<lambda>m. m_assessmentId m = n) (messages ?s) = []"
      by (auto simp: filter_empty_conv)
    then show "?ms = []" by simp
  qed
  have "sorted (map m_createdAt ?ms)" by (rule sorted_sort_key)
  moreover have "mset ?ms = mset (filter (\<lambda>m. m_assessmentId m = n) (messages ?s))"
    by simp
  ultimately show ?thesis using g e by blast
qed

lemma example_thread_after:
  "messages (thread_run (\<lambda>j. ''document_request'') example_thread_db
      [PostMessage 5 ''1'' ''Customer'' ''hi'', RequestDocs 25 ''1'' None]) =
   [example_message 1 30 1, example_message 2 20 2, example_message 3 10 1,
    \<lparr> m_id = 4, m_sender = ''Customer'', m_text = ''hi'', m_createdAt = 5, m_assessmentId = 1 \<rparr>,
    \<lparr> m_id = 5, m_sender = ''Bank Manager'', m_text = ''document_request'', m_createdAt = 25,
      m_assessmentId = 1 \<rparr>]"
  by (simp add: thread_run_def post_message_def request_docs_def message_create_cases js_Number_1
        example_thread_db_def example_assessment_def other_assessment_def Let_def)

theorem getMessages_sorted_witness:
  "js_Number ''1'' = Some 1 \<and>
   getMessages (thread_run (\<lambda>j. ''document_request'') example_thread_db
      [PostMessage 5 ''1'' ''Customer'' ''hi'', RequestDocs 25 ''1'' None]) ''1'' =
     (200, Messages
        [\<lparr> m_id = 4, m_sender = ''Customer'', m_text = ''hi'', m_createdAt = 5, m_assessmentId = 1 \<rparr>,
         example_message 3 10 1,
         \<lparr> m_id = 5, m_sender = ''Bank Manager'', m_text = ''document_request'', m_createdAt = 25,
           m_assessmentId = 1 \<rparr>,
         example_message 1 30 1]) \<and>
   (\<exists>ms. getMessages (thread_run (\<lambda>j. ''document_request'') example_thread_db
      [PostMessage 5 ''1'' ''Customer'' ''hi'', RequestDocs 25 ''1'' None]) ''1'' =
        (200, Messages ms) \<and> sorted (map m_createdAt ms))"
proof -
  have g: "getMessages (thread_run (\<lambda>j. ''document_request'') example_thread_db
      [PostMessage 5 ''1'' ''Customer'' ''hi'', RequestDocs 25 ''1'' None]) ''1'' =
     (200, Messages
        [\<lparr> m_id = 4, m_sender = ''Customer'', m_text = ''hi'', m_createdAt = 5, m_assessmentId = 1 \<rparr>,
         example_message 3 10 1,
         \<lparr> m_id = 5, m_sender = ''Bank Manager'', m_text = ''document_request'', m_createdAt = 25,
           m_assessmentId = 1 \<rparr>,
         example_message 1 30 1])"
    by (simp add: getMessages_def message_findMany_def js_Number_1 example_thread_after
          example_message_def)
  from getMessages_sorted[OF js_Number_1, of "\<lambda>j. ''document_request''" example_thread_db
      "[PostMessage 5 ''1'' ''Customer'' ''hi'', RequestDocs 25 ''1'' None]"]
  have "\<exists>ms. getMessages (thread_run (\<lambda>j. ''document_request'') example_thread_db
      [PostMessage 5 ''1'' ''Customer'' ''hi'', RequestDocs 25 ''1'' None]) ''1'' =
        (200, Messages ms) \<and> sorted (map m_createdAt ms)"
    by blast
  with g js_Number_1 show ?thesis by blast
qed

section \<open>Properties of the question generator\<close>

subsection \<open>Strings\<close>

lemma replace_ing_context:
  "replace_ing ''generating dynamic questions'' = ''generate dynamic questions''"
  by (simp add: replace_ing.simps)

lemma string_of_nat_examples:
  "string_of_nat 1 = ''1'' \<and> string_of_nat 7 = ''7'' \<and> string_of_nat 10 = ''10'' \<and> string_of_nat 123 = ''123''"
  by (simp add: string_of_nat.simps digit_char_def)

lemma includes_str_iff: "includes_str s p \<longleftrightarrow> (\<exists>a b. s = a @ p @ b)"
proof (induction s)
  case Nil
  then show ?case by auto
next
  case (Cons c cs)
  show ?case
  proof
    assume "includes_str (c # cs) p"
    then consider "take (length p) (c # cs) = p" | "includes_str cs p" by auto
    then show "\<exists>a b. c # cs = a @ p @ b"
    proof cases
      case 1
      then have "c # cs = [] @ p @ drop (length p) (c # cs)"
        by (metis append_Nil append_take_drop_id)
      then show ?thesis by blast
    next
      case 2
      with Cons.IH obtain a b where "cs = a @ p @ b" by blast
      then have "c # cs = (c # a) @ p @ b" by simp
      then show ?thesis by blast
    qed
  next
    assume "\<exists>a b. c # cs = a @ p @ b"
    then obtain a b where ab: "c # cs = a @ p @ b" by blast
    show "includes_str (c # cs) p"
    proof (cases a)
      case Nil
      with ab have "take (length p) (c # cs) = p" by simp
      then show ?thesis by simp
    next
      case (Cons x xs)
      with ab have "cs = xs @ p @ b" by simp
      with Cons.IH have "includes_str cs p" by blast
      then show ?thesis by simp
    qed
  qed
qed

lemma takeWhile_upto:
  "c \<notin> set pre \<Longrightarrow> takeWhile (\<lambda>x. x \<noteq> c) (pre @ c # rest) = pre"
  by (subst takeWhile_append2) auto

lemma indexOf_first:
  "c \<notin> set pre \<Longrightarrow> indexOf (pre @ c # rest) c = int (length pre)"
  by (simp add: indexOf_def takeWhile_upto)

lemma lastIndexOf_last:
  assumes "c \<notin> set post"
  shows "lastIndexOf (rest @ c # post) c = int (length rest)"
proof -
  have "takeWhile (\<lambda>x. x \<noteq> c) (rev post @ c # rev rest) = rev post"
    using assms by (intro takeWhile_upto) simp
  then show ?thesis by (simp add: lastIndexOf_def)
qed

lemma indexOf_absent: "c \<notin> set text \<Longrightarrow> indexOf text c = - 1"
  by (simp add: indexOf_def)

lemma lastIndexOf_absent: "c \<notin> set text \<Longrightarrow> lastIndexOf text c = - 1"
  by (simp add: lastIndexOf_def)

subsection \<open>Extraction of the array\<close>

lemma extract_absent:
  "CHR ''['' \<notin> set text \<or> CHR '']'' \<notin> set text \<Longrightarrow>
   extractJsonArray text =
     Inl (JsError ''Error'' None ''AI response did not contain a valid JSON array.'')"
  by (auto simp: extractJsonArray_def indexOf_absent lastIndexOf_absent Let_def)

lemma substring_mid:
  "substring (xs @ ys @ zs) (int (length xs)) (int (length xs) + int (length ys)) = ys"
proof -
  let ?n = "int (length (xs @ ys @ zs))"
  have a: "min (max (int (length xs)) 0) ?n = int (length xs)" by simp
  have b: "min (max (int (length xs) + int (length ys)) 0) ?n =
             int (length xs) + int (length ys)" by simp
  have lo: "min (int (length xs)) (int (length xs) + int (length ys)) = int (length xs)"
    by simp
  have hi: "max (int (length xs)) (int (length xs) + int (length ys)) =
              int (length xs) + int (length ys)" by simp
  show ?thesis unfolding substring_def Let_def a b lo hi by simp
qed

lemma substring_swap: "substring text a b = substring text b a"
  by (simp add: substring_def Let_def min.commute max.commute)

lemma extract_ordered:
  assumes "CHR ''['' \<notin> set pre" "CHR '']'' \<notin> set post"
  shows "extractJsonArray (pre @ CHR ''['' # inner @ CHR '']'' # post) =
           Inr (CHR ''['' # inner @ [CHR '']''])"
proof -
  let ?t = "pre @ CHR ''['' # inner @ CHR '']'' # post"
  let ?mid = "CHR ''['' # inner @ [CHR '']'']"
  have t: "?t = pre @ ?mid @ post" by simp
  have i: "indexOf ?t CHR ''['' = int (length pre)" using assms(1) by (rule indexOf_first)
  have "lastIndexOf ((pre @ CHR ''['' # inner) @ CHR '']'' # post) CHR '']'' =
          int (length (pre @ CHR ''['' # inner))"
    using assms(2) by (rule lastIndexOf_last)
  then have j: "lastIndexOf ?t CHR '']'' + 1 = int (length pre) + int (length ?mid)" by simp
  have "substring ?t (indexOf ?t CHR ''['') (lastIndexOf ?t CHR '']'' + 1) = ?mid"
    unfolding i j unfolding t by (rule substring_mid)
  moreover have "indexOf ?t CHR ''['' \<noteq> - 1" "lastIndexOf ?t CHR '']'' \<noteq> - 1"
    using i j by simp_all
  ultimately show ?thesis by (simp add: extractJsonArray_def Let_def)
qed

lemma extract_reversed:
  assumes "CHR ''['' \<notin> set a" "CHR ''['' \<notin> set mid" "CHR '']'' \<notin> set mid" "CHR '']'' \<notin> set b"
  shows "extractJsonArray (a @ CHR '']'' # mid @ CHR ''['' # b) = Inr mid"
proof -
  let ?t = "a @ CHR '']'' # mid @ CHR ''['' # b"
  have t: "?t = (a @ [CHR '']'']) @ mid @ (CHR ''['' # b)" by simp
  have "indexOf ((a @ CHR '']'' # mid) @ CHR ''['' # b) CHR ''['' = int (length (a @ CHR '']'' # mid))"
    using assms(1,2) by (intro indexOf_first) simp
  then have i: "indexOf ?t CHR ''['' = int (length (a @ [CHR '']''])) + int (length mid)" by simp
  have "lastIndexOf ?t CHR '']'' = int (length a)"
    using assms(3,4) by (intro lastIndexOf_last) simp
  then have j: "lastIndexOf ?t CHR '']'' + 1 = int (length (a @ [CHR '']'']))" by simp
  have "substring ?t (lastIndexOf ?t CHR '']'' + 1) (indexOf ?t CHR ''['') = mid"
    unfolding i j unfolding t by (rule substring_mid)
  then have "substring ?t (indexOf ?t CHR ''['') (lastIndexOf ?t CHR '']'' + 1) = mid"
    by (simp add: substring_swap)
  moreover have "indexOf ?t CHR ''['' \<noteq> - 1" "lastIndexOf ?t CHR '']'' \<noteq> - 1"
    using i j by simp_all
  ultimately show ?thesis by (simp add: extractJsonArray_def Let_def)
qed

subsection \<open>The error responses\<close>

lemma handle_rate_limit:
  "err_status e = Some 429 \<or> includes_str (toString e) ''429'' \<Longrightarrow>
   handleGeminiError e context =
     (429, Error (''Could not complete request due to high traffic '' @
                  ''(API rate limit exceeded). Please try again later.''))"
  by (simp add: handleGeminiError_def)

lemma handle_other:
  "\<not> (err_status e = Some 429 \<or> includes_str (toString e) ''429'') \<Longrightarrow>
   handleGeminiError e ''generating dynamic questions'' =
     (500, Error ''Failed to generate dynamic questions'')"
  by (simp add: handleGeminiError_def replace_ing_context)

lemma handle_is_error:
  "\<exists>c msg. handleGeminiError e context = (c, Error msg) \<and> (c = 500 \<or> c = 429)"
  by (simp add: handleGeminiError_def Let_def)

lemma gen_service_error:
  assumes "coreQuestionIds r = Some ids"
    and "p = \<lparr> targetLanguage = target_language (q_language r), excludedTopics = join ids \<rparr>"
    and "generateContent p = Inl e"
  shows "generate_questions generateContent JSON_parse r =
           (handleGeminiError e ''generating dynamic questions'', [p])"
  using assms by (simp add: generate_questions_def Let_def)

lemma gen_extract_error:
  assumes "coreQuestionIds r = Some ids"
    and "p = \<lparr> targetLanguage = target_language (q_language r), excludedTopics = join ids \<rparr>"
    and "generateContent p = Inr raw" and "extractJsonArray raw = Inl e"
  shows "generate_questions generateContent JSON_parse r =
           (handleGeminiError e ''generating dynamic questions'', [p])"
  using assms by (simp add: generate_questions_def Let_def)

lemma gen_parse_error:
  assumes "coreQuestionIds r = Some ids"
    and "p = \<lparr> targetLanguage = target_language (q_language r), excludedTopics = join ids \<rparr>"
    and "generateContent p = Inr raw" and "extractJsonArray raw = Inr cleaned"
    and "JSON_parse cleaned = Inl m"
  shows "generate_questions generateContent JSON_parse r =
           (handleGeminiError (JsError ''SyntaxError'' None m) ''generating dynamic questions'', [p])"
  using assms by (simp add: generate_questions_def Let_def)

lemma gen_parsed:
  assumes "coreQuestionIds r = Some ids"
    and "p = \<lparr> targetLanguage = target_language (q_language r), excludedTopics = join ids \<rparr>"
    and "generateContent p = Inr raw" and "extractJsonArray raw = Inr cleaned"
    and "JSON_parse cleaned = Inr j" and "renumber j = Inr j'"
  shows "generate_questions generateContent JSON_parse r = ((200, Questions j'), [p])"
  using assms by (simp add: generate_questions_def Let_def)

lemma missing_array_error_no_429:
  "\<not> (err_status (JsError ''Error'' None ''AI response did not contain a valid JSON array.'') = Some 429 \<or>
      includes_str (toString (JsError ''Error'' None ''AI response did not contain a valid JSON array.'')) ''429'')"
  by (simp add: toString_def)

lemma example_prompt_eq:
  "example_prompt = \<lparr> targetLanguage = target_language (q_language example_questions_request),
                       excludedTopics = join [''income'', ''savings''] \<rparr>"
  by (simp add: example_prompt_def example_questions_request_def target_language_def
        languageMap_def)

lemma example_ids: "coreQuestionIds example_questions_request = Some [''income'', ''savings'']"
  by (simp add: example_questions_request_def)

lemma example_extract: "extractJsonArray example_completion = Inr example_array"
proof -
  have "extractJsonArray (''Here is the result: '' @ CHR ''['' #
          butlast (tl example_array) @ CHR '']'' # '' Thanks!'') =
        Inr (CHR ''['' # butlast (tl example_array) @ [CHR '']''])"
    by (rule extract_ordered) simp_all
  then show ?thesis by (simp add: example_completion_def example_array_def)
qed

text \<open>
  Claim C4, as the handler has it. When the text of the service lacks \<^verbatim>\<open>[\<close> or
  \<^verbatim>\<open>]\<close>, the extraction throws, the error is caught, and the answer is the status 500
  with the text \<^verbatim>\<open>Failed to generate dynamic questions\<close>. When the first \<^verbatim>\<open>[\<close>
  stands before the last \<^verbatim>\<open>]\<close>, the extraction returns exactly the part of the text from
  the one to the other, both included. When the extracted text does not parse, the answer is
  an error, never questions: the same status 500 with the same text, provided \<^verbatim>\<open>429\<close>
  does not occur in the parser's error.
\<close>

theorem extractJsonArray_brackets:
  assumes "coreQuestionIds r = Some ids"
    and "p = \<lparr> targetLanguage = target_language (q_language r), excludedTopics = join ids \<rparr>"
    and "generateContent p = Inr raw"
  shows "(CHR ''['' \<notin> set raw \<or> CHR '']'' \<notin> set raw \<longrightarrow>
            extractJsonArray raw =
              Inl (JsError ''Error'' None ''AI response did not contain a valid JSON array.'') \<and>
            fst (generate_questions generateContent JSON_parse r) =
              (500, Error ''Failed to generate dynamic questions'')) \<and>
         (\<forall>pre inner post.
            raw = pre @ CHR ''['' # inner @ CHR '']'' # post \<and>
            CHR ''['' \<notin> set pre \<and> CHR '']'' \<notin> set post \<longrightarrow>
            extractJsonArray raw = Inr (CHR ''['' # inner @ [CHR '']''])) \<and>
         (\<forall>cleaned m.
            extractJsonArray raw = Inr cleaned \<and> JSON_parse cleaned = Inl m \<longrightarrow>
            (\<exists>c msg. fst (generate_questions generateContent JSON_parse r) = (c, Error msg) \<and>
                      (c = 500 \<or> c = 429)) \<and>
            (\<not> includes_str (toString (JsError ''SyntaxError'' None m)) ''429'' \<longrightarrow>
               fst (generate_questions generateContent JSON_parse r) =
                 (500, Error ''Failed to generate dynamic questions'')))"
proof (intro conjI allI impI)
  assume a: "CHR ''['' \<notin> set raw \<or> CHR '']'' \<notin> set raw"
  then show e: "extractJsonArray raw =
              Inl (JsError ''Error'' None ''AI response did not contain a valid JSON array.'')"
    by (rule extract_absent)
  show "fst (generate_questions generateContent JSON_parse r) =
              (500, Error ''Failed to generate dynamic questions'')"
    using gen_extract_error[where generateContent = generateContent and p = p and JSON_parse = JSON_parse, OF assms e] handle_other[OF missing_array_error_no_429]
    by simp
next
  fix pre inner post
  assume "raw = pre @ CHR ''['' # inner @ CHR '']'' # post \<and>
            CHR ''['' \<notin> set pre \<and> CHR '']'' \<notin> set post"
  then show "extractJsonArray raw = Inr (CHR ''['' # inner @ [CHR '']''])"
    using extract_ordered by blast
next
  fix cleaned m
  assume h: "extractJsonArray raw = Inr cleaned \<and> JSON_parse cleaned = Inl m"
  then have g: "generate_questions generateContent JSON_parse r =
           (handleGeminiError (JsError ''SyntaxError'' None m) ''generating dynamic questions'', [p])"
    using gen_parse_error[where generateContent = generateContent and p = p and JSON_parse = JSON_parse, OF assms] by blast
  show "\<exists>c msg. fst (generate_questions generateContent JSON_parse r) = (c, Error msg) \<and>
                      (c = 500 \<or> c = 429)"
    using handle_is_error[of "JsError ''SyntaxError'' None m" "''generating dynamic questions''"]
    by (simp add: g)
  assume "\<not> includes_str (toString (JsError ''SyntaxError'' None m)) ''429''"
  then have "handleGeminiError (JsError ''SyntaxError'' None m) ''generating dynamic questions'' =
        (500, Error ''Failed to generate dynamic questions'')"
    by (intro handle_other) simp
  then show "fst (generate_questions generateContent JSON_parse r) =
                 (500, Error ''Failed to generate dynamic questions'')"
    by (simp add: g)
qed

theorem extractJsonArray_brackets_witness:
  "extractJsonArray ''I cannot answer.'' =
     Inl (JsError ''Error'' None ''AI response did not contain a valid JSON array.'') \<and>
   fst (generate_questions (\<lambda>p. Inr ''I cannot answer.'') example_parse
          example_questions_request) =
     (500, Error ''Failed to generate dynamic questions'') \<and>
   extractJsonArray example_completion = Inr example_array \<and>
   fst (generate_questions (\<lambda>p. Inr example_completion) (\<lambda>t. Inl ''Unexpected end of JSON input'')
          example_questions_request) =
     (500, Error ''Failed to generate dynamic questions'')"
proof -
  have a: "CHR ''['' \<notin> set ''I cannot answer.'' \<or> CHR '']'' \<notin> set ''I cannot answer.''"
    by simp
  have n: "\<not> includes_str
              (toString (JsError ''SyntaxError'' None ''Unexpected end of JSON input'')) ''429''"
    by (simp add: toString_def)
  from extractJsonArray_brackets[where generateContent = "\<lambda>p. Inr ''I cannot answer.''"
      and JSON_parse = example_parse and raw = "''I cannot answer.''", OF example_ids
      example_prompt_eq] a
  have 1: "extractJsonArray ''I cannot answer.'' =
     Inl (JsError ''Error'' None ''AI response did not contain a valid JSON array.'') \<and>
   fst (generate_questions (\<lambda>p. Inr ''I cannot answer.'') example_parse
          example_questions_request) =
     (500, Error ''Failed to generate dynamic questions'')"
    by blast
  from extractJsonArray_brackets[where generateContent = "\<lambda>p. Inr example_completion"
      and JSON_parse = "\<lambda>t. Inl ''Unexpected end of JSON input''"
      and raw = example_completion, OF example_ids example_prompt_eq] example_extract n
  have 2: "fst (generate_questions (\<lambda>p. Inr example_completion)
            (\<lambda>t. Inl ''Unexpected end of JSON input'') example_questions_request) =
     (500, Error ''Failed to generate dynamic questions'')"
    by blast
  from 1 2 example_extract show ?thesis by blast
qed

text \<open>
  Claim C4 as the specification words it has the extraction return the part from the first
  \<^verbatim>\<open>[\<close> to the last \<^verbatim>\<open>]\<close> for every text that has both. When the last \<^verbatim>\<open>]\<close>
  stands before the first \<^verbatim>\<open>[\<close>, \<^verbatim>\<open>substring\<close> swaps its arguments and the result is
  the text between the two brackets, which begins with no bracket.
\<close>

theorem extractJsonArray_reversed_counterexample: "extractJsonArray '']x['' = Inr ''x''"
  using extract_reversed[of "[]" "''x''" "[]"] by simp

text \<open>
  An error of the parser whose message holds \<^verbatim>\<open>429\<close>, here as a position in the text,
  is answered as a rate limit.
\<close>

lemma parse_error_with_429:
  "handleGeminiError (JsError ''SyntaxError'' None ''Unexpected token x in JSON at position 429'')
     ''generating dynamic questions'' =
   (429, Error (''Could not complete request due to high traffic '' @
                ''(API rate limit exceeded). Please try again later.''))"
  by (rule handle_rate_limit) (simp add: toString_def)

text \<open>
  What the handler does when the service fails: it has sent its one prompt, and the answer
  follows the test of \<open>handleGeminiError\<close>.
\<close>

lemma service_failure_response:
  assumes "coreQuestionIds r = Some ids"
    and "p = \<lparr> targetLanguage = target_language (q_language r), excludedTopics = join ids \<rparr>"
    and "generateContent p = Inl e"
  shows "snd (generate_questions generateContent JSON_parse r) = [p] \<and>
         fst (generate_questions generateContent JSON_parse r) =
           (if err_status e = Some 429 \<or> includes_str (toString e) ''429''
            then (429, Error (''Could not complete request due to high traffic '' @
                              ''(API rate limit exceeded). Please try again later.''))
            else (500, Error ''Failed to generate dynamic questions''))"
  using gen_service_error[where generateContent = generateContent and p = p
      and JSON_parse = JSON_parse, OF assms] handle_rate_limit[of e] handle_other[of e]
  by (cases "err_status e = Some 429 \<or> includes_str (toString e) ''429''") simp_all

lemma service_failure_examples:
  "generate_questions (\<lambda>p. Inl rate_limit_error) example_parse example_questions_request =
     ((429, Error (''Could not complete request due to high traffic '' @
                   ''(API rate limit exceeded). Please try again later.'')), [example_prompt]) \<and>
   generate_questions (\<lambda>p. Inl unavailable_error) example_parse example_questions_request =
     ((500, Error ''Failed to generate dynamic questions''), [example_prompt])"
proof -
  have r: "err_status rate_limit_error = Some 429" by (simp add: rate_limit_error_def)
  have u: "\<not> (err_status unavailable_error = Some 429 \<or>
               includes_str (toString unavailable_error) ''429'')"
    by (simp add: unavailable_error_def toString_def)
  from service_failure_response[where generateContent = "\<lambda>p. Inl rate_limit_error"
      and JSON_parse = example_parse and e = rate_limit_error, OF example_ids example_prompt_eq] r
  have 1: "generate_questions (\<lambda>p. Inl rate_limit_error) example_parse
             example_questions_request =
     ((429, Error (''Could not complete request due to high traffic '' @
                   ''(API rate limit exceeded). Please try again later.'')), [example_prompt])"
    by (simp add: prod_eq_iff)
  from service_failure_response[where generateContent = "\<lambda>p. Inl unavailable_error"
      and JSON_parse = example_parse and e = unavailable_error, OF example_ids example_prompt_eq] u
  have 2: "generate_questions (\<lambda>p. Inl unavailable_error) example_parse
             example_questions_request =
     ((500, Error ''Failed to generate dynamic questions''), [example_prompt])"
    by (simp add: prod_eq_iff)
  from 1 2 show ?thesis by blast
qed

text \<open>
  Claim C9. The specification has a failure of the service answered as a rate limit when the
  service signals quota or throttling, and as unavailable for any other failure, with no
  retry. The handler does call the service once only, and it answers with one of two
  statuses; but its test for the signal also takes the digits \<^verbatim>\<open>429\<close> anywhere in the
  error's text for it. The internal error of the service, whose status is 500 and whose text
  holds the request number 4290, is not answered with status 500: the answer is status 429
  with the rate-limit text.
\<close>

theorem service_failure_misclassified:
  "err_status internal_error = Some 500 \<and>
   generate_questions (\<lambda>p. Inl internal_error) example_parse example_questions_request =
     ((429, Error (''Could not complete request due to high traffic '' @
                   ''(API rate limit exceeded). Please try again later.'')), [example_prompt])"
proof -
  have s: "err_status internal_error = Some 500" by (simp add: internal_error_def)
  have i: "err_status internal_error = Some 429 \<or>
           includes_str (toString internal_error) ''429''"
    by (simp add: internal_error_def toString_def)
  from gen_service_error[where generateContent = "\<lambda>p. Inl internal_error"
      and JSON_parse = example_parse and e = internal_error and p = example_prompt,
      OF example_ids example_prompt_eq]
  have "generate_questions (\<lambda>p. Inl internal_error) example_parse example_questions_request =
          (handleGeminiError internal_error ''generating dynamic questions'', [example_prompt])"
    by simp
  with handle_rate_limit[OF i, of "''generating dynamic questions''"] s show ?thesis by simp
qed

subsection \<open>Renumbering\<close>

text \<open>The decimal text of a number reads back as the number.\<close>

lemma digit_val_digit_char: "d < 10 \<Longrightarrow> digit_val (digit_char d) = Some d"
proof -
  assume "d < 10"
  then consider "d = 0" | "d = 1" | "d = 2" | "d = 3" | "d = 4" | "d = 5" | "d = 6" | "d = 7"
    | "d = 8" | "d = 9"
    by (auto simp: numeral_eq_Suc less_Suc_eq)
  then show ?thesis by cases (simp_all add: digit_val_def digit_char_def)
qed

lemma digits_val_snoc:
  "digits_val acc (cs @ [c]) =
     (case digits_val acc cs of
        None \<Rightarrow> None
      | Some v \<Rightarrow> (case digit_val c of None \<Rightarrow> None | Some d \<Rightarrow> Some (10 * v + d)))"
  by (induction cs arbitrary: acc) (auto split: option.splits)

lemma digits_val_string_of_nat: "digits_val 0 (string_of_nat n) = Some n"
proof (induction n rule: string_of_nat.induct)
  case (1 n)
  show ?case
  proof (cases "n < 10")
    case True
    then show ?thesis
      by (subst string_of_nat.simps) (simp add: digit_val_digit_char)
  next
    case False
    have m: "n mod 10 < 10" by simp
    from False "1.IH" have "digits_val 0 (string_of_nat (n div 10)) = Some (n div 10)" by simp
    with False show ?thesis
      by (subst string_of_nat.simps) (simp add: digits_val_snoc digit_val_digit_char[OF m])
  qed
qed

lemma string_of_nat_1_to_7:
  "string_of_nat 1 = ''1'' \<and> string_of_nat 2 = ''2'' \<and> string_of_nat 3 = ''3'' \<and>
   string_of_nat 4 = ''4'' \<and> string_of_nat 5 = ''5'' \<and> string_of_nat 6 = ''6'' \<and>
   string_of_nat 7 = ''7''"
  by (simp add: string_of_nat.simps digit_char_def)

lemma set_id_not_null: "q \<noteq> JNull \<Longrightarrow> set_id i q = Inr (renumbered_item (i, q))"
  by (cases q) (simp_all add: renumbered_item_def)

lemma forEach_set_id_no_null:
  "JNull \<notin> set qs \<Longrightarrow> forEach_set_id k qs = Inr (map renumbered_item (enumerate k qs))"
proof (induction qs arbitrary: k)
  case Nil
  then show ?case by simp
next
  case (Cons q qs)
  from Cons.prems have q: "q \<noteq> JNull" and r: "JNull \<notin> set qs" by auto
  from Cons.IH[OF r, of "k + 1"] set_id_not_null[OF q, of k] show ?case by simp
qed

lemma forEach_set_id_null:
  "JNull \<in> set qs \<Longrightarrow>
   forEach_set_id k qs =
     Inl (JsError ''TypeError'' None ''Cannot set properties of null (setting id)'')"
proof (induction qs arbitrary: k)
  case Nil
  then show ?case by simp
next
  case (Cons q qs)
  show ?case
  proof (cases "q = JNull")
    case True
    then show ?thesis by simp
  next
    case False
    with Cons.prems have "JNull \<in> set qs" by simp
    from Cons.IH[OF this, of "k + 1"] set_id_not_null[OF False, of k] show ?thesis by simp
  qed
qed

lemma mixed_extract: "extractJsonArray mixed_completion = Inr mixed_array"
proof -
  have "extractJsonArray (''Here is the result: '' @ CHR ''['' #
          butlast (tl mixed_array) @ CHR '']'' # '' Thanks!'') =
        Inr (CHR ''['' # butlast (tl mixed_array) @ [CHR '']''])"
    by (rule extract_ordered) simp_all
  then show ?thesis by (simp add: mixed_completion_def mixed_array_def)
qed

lemma plain_extract: "extractJsonArray plain_completion = Inr plain_array"
proof -
  have "extractJsonArray (''Sure: '' @ CHR ''['' #
          butlast (tl plain_array) @ CHR '']'' # []) =
        Inr (CHR ''['' # butlast (tl plain_array) @ [CHR '']''])"
    by (rule extract_ordered) simp_all
  then show ?thesis by (simp add: plain_completion_def plain_array_def)
qed

text \<open>
  Claim C5, as the handler has it. When the extracted text parses to an array that holds no
  \<^verbatim>\<open>null\<close>, the answer is status 200 with an array of the same length in the same order.
  An item that is an object has, at index \<open>i\<close>, the \<open>id\<close> \<^verbatim>\<open>dynamic_question_\<close>
  followed by \<open>i + 1\<close> in decimal (which reads back as \<open>i + 1\<close>, and is \<^verbatim>\<open>1\<close> to
  \<^verbatim>\<open>7\<close> for the seven items asked for), whatever \<open>id\<close> it came with, and its other
  properties as they were. An item that is no object is returned as it is, without an
  \<open>id\<close>.
\<close>

theorem questions_renumbered:
  assumes "coreQuestionIds r = Some ids"
    and "p = \<lparr> targetLanguage = target_language (q_language r), excludedTopics = join ids \<rparr>"
    and "generateContent p = Inr raw" and "extractJsonArray raw = Inr cleaned"
    and "JSON_parse cleaned = Inr (JArr qs)" and "JNull \<notin> set qs"
  shows "\<exists>qs'. fst (generate_questions generateContent JSON_parse r) = (200, Questions (JArr qs')) \<and>
           length qs' = length qs \<and>
           (\<forall>i<length qs.
              (\<forall>ps. qs ! i = JObj ps \<longrightarrow>
                 (\<exists>ps'. qs' ! i = JObj ps' \<and>
                    map_of ps' ''id'' =
                      Some (JStr (''dynamic_question_'' @ string_of_nat (i + 1))) \<and>
                    digits_val 0 (string_of_nat (i + 1)) = Some (i + 1) \<and>
                    (\<forall>k. k \<noteq> ''id'' \<longrightarrow> map_of ps' k = map_of ps k))) \<and>
              ((\<forall>ps. qs ! i \<noteq> JObj ps) \<longrightarrow> qs' ! i = qs ! i)) \<and>
           string_of_nat 1 = ''1'' \<and> string_of_nat 2 = ''2'' \<and> string_of_nat 3 = ''3'' \<and>
           string_of_nat 4 = ''4'' \<and> string_of_nat 5 = ''5'' \<and> string_of_nat 6 = ''6'' \<and>
           string_of_nat 7 = ''7''"
proof -
  let ?qs' = "map renumbered_item (enumerate 0 qs)"
  have "renumber (JArr qs) = Inr (JArr ?qs')"
    by (simp add: renumber_def forEach_set_id_no_null[OF assms(6)])
  from gen_parsed[where generateContent = generateContent and p = p and JSON_parse = JSON_parse,
      OF assms(1-5) this]
  have g: "fst (generate_questions generateContent JSON_parse r) = (200, Questions (JArr ?qs'))"
    by simp
  have l: "length ?qs' = length qs" by simp
  have n: "\<forall>i<length qs.
              (\<forall>ps. qs ! i = JObj ps \<longrightarrow>
                 (\<exists>ps'. ?qs' ! i = JObj ps' \<and>
                    map_of ps' ''id'' =
                      Some (JStr (''dynamic_question_'' @ string_of_nat (i + 1))) \<and>
                    digits_val 0 (string_of_nat (i + 1)) = Some (i + 1) \<and>
                    (\<forall>k. k \<noteq> ''id'' \<longrightarrow> map_of ps' k = map_of ps k))) \<and>
              ((\<forall>ps. qs ! i \<noteq> JObj ps) \<longrightarrow> ?qs' ! i = qs ! i)"
  proof (intro allI impI conjI)
    fix i ps
    assume i: "i < length qs" and o: "qs ! i = JObj ps"
    let ?ps' = "AList.update ''id'' (JStr (''dynamic_question_'' @ string_of_nat (i + 1))) ps"
    have "?qs' ! i = JObj ?ps'"
      using i o by (simp add: nth_enumerate_eq renumbered_item_def)
    moreover have "map_of ?ps' ''id'' =
        Some (JStr (''dynamic_question_'' @ string_of_nat (i + 1)))"
      by (simp add: update_conv')
    moreover have "\<forall>k. k \<noteq> ''id'' \<longrightarrow> map_of ?ps' k = map_of ps k"
      by (simp add: update_conv')
    ultimately show "\<exists>ps'. ?qs' ! i = JObj ps' \<and>
                    map_of ps' ''id'' =
                      Some (JStr (''dynamic_question_'' @ string_of_nat (i + 1))) \<and>
                    digits_val 0 (string_of_nat (i + 1)) = Some (i + 1) \<and>
                    (\<forall>k. k \<noteq> ''id'' \<longrightarrow> map_of ps' k = map_of ps k)"
      using digits_val_string_of_nat[of "i + 1"] by blast
  next
    fix i
    assume i: "i < length qs" and o: "\<forall>ps. qs ! i \<noteq> JObj ps"
    then show "?qs' ! i = qs ! i"
      by (cases "qs ! i") (simp_all add: nth_enumerate_eq renumbered_item_def)
  qed
  from g l n string_of_nat_1_to_7 show ?thesis by blast
qed

theorem questions_renumbered_witness:
  "coreQuestionIds example_questions_request = Some [''income'', ''savings''] \<and>
   extractJsonArray mixed_completion = Inr mixed_array \<and>
   JNull \<notin> set [JObj [(''id'', JStr ''x''), (''question'', JStr ''A?'')], JNum ''1'',
                 JObj [(''question'', JStr ''B?'')]] \<and>
   (\<exists>qs'. fst (generate_questions (\<lambda>p. Inr mixed_completion) mixed_parse
                 example_questions_request) = (200, Questions (JArr qs')) \<and>
      length qs' = 3 \<and>
      (\<exists>ps'. qs' ! 0 = JObj ps' \<and> map_of ps' ''id'' = Some (JStr ''dynamic_question_1'') \<and>
              map_of ps' ''question'' = Some (JStr ''A?'')) \<and>
      qs' ! 1 = JNum ''1'' \<and>
      (\<exists>ps'. qs' ! 2 = JObj ps' \<and> map_of ps' ''id'' = Some (JStr ''dynamic_question_3'') \<and>
              map_of ps' ''question'' = Some (JStr ''B?'')))"
proof -
  let ?qs = "[JObj [(''id'', JStr ''x''), (''question'', JStr ''A?'')], JNum ''1'',
              JObj [(''question'', JStr ''B?'')]]"
  have p: "mixed_parse mixed_array = Inr (JArr ?qs)" by (simp add: mixed_parse_def)
  have o: "JNull \<notin> set ?qs" by simp
  from questions_renumbered[where generateContent = "\<lambda>p. Inr mixed_completion"
      and JSON_parse = mixed_parse and p = example_prompt,
      OF example_ids example_prompt_eq _ mixed_extract p o]
  obtain qs' where g: "fst (generate_questions (\<lambda>p. Inr mixed_completion) mixed_parse
                 example_questions_request) = (200, Questions (JArr qs'))"
    and l: "length qs' = length ?qs"
    and n: "\<forall>i<length ?qs.
              (\<forall>ps. ?qs ! i = JObj ps \<longrightarrow>
                 (\<exists>ps'. qs' ! i = JObj ps' \<and>
                    map_of ps' ''id'' =
                      Some (JStr (''dynamic_question_'' @ string_of_nat (i + 1))) \<and>
                    digits_val 0 (string_of_nat (i + 1)) = Some (i + 1) \<and>
                    (\<forall>k. k \<noteq> ''id'' \<longrightarrow> map_of ps' k = map_of ps k))) \<and>
              ((\<forall>ps. ?qs ! i \<noteq> JObj ps) \<longrightarrow> qs' ! i = ?qs ! i)"
    and s1: "string_of_nat 1 = ''1''" and s3: "string_of_nat 3 = ''3''"
    by auto
  have i0: "(0::nat) < length ?qs" and i1: "(1::nat) < length ?qs" and i2: "(2::nat) < length ?qs"
    by simp_all
  have q0: "?qs ! 0 = JObj [(''id'', JStr ''x''), (''question'', JStr ''A?'')]"
    and q1: "\<forall>ps. ?qs ! 1 \<noteq> JObj ps"
    and q2: "?qs ! 2 = JObj [(''question'', JStr ''B?'')]"
    by simp_all
  from n i0 q0 obtain a where a: "qs' ! 0 = JObj a"
    "map_of a ''id'' = Some (JStr (''dynamic_question_'' @ string_of_nat (0 + 1)))"
    "\<forall>k. k \<noteq> ''id'' \<longrightarrow> map_of a k = map_of [(''id'', JStr ''x''), (''question'', JStr ''A?'')] k"
    by blast
  from n i1 q1 have b: "qs' ! 1 = ?qs ! 1" by blast
  from n i2 q2 obtain c where c: "qs' ! 2 = JObj c"
    "map_of c ''id'' = Some (JStr (''dynamic_question_'' @ string_of_nat (2 + 1)))"
    "\<forall>k. k \<noteq> ''id'' \<longrightarrow> map_of c k = map_of [(''question'', JStr ''B?'')] k"
    by blast
  have a': "map_of a ''id'' = Some (JStr ''dynamic_question_1'')"
    using a(2) s1 by simp
  have a'': "map_of a ''question'' = Some (JStr ''A?'')"
    using a(3) by simp
  have c': "map_of c ''id'' = Some (JStr ''dynamic_question_3'')"
    using c(2) s3 by simp
  have c'': "map_of c ''question'' = Some (JStr ''B?'')"
    using c(3) by simp
  have l': "length qs' = 3" using l by simp
  have b': "qs' ! 1 = JNum ''1''" using b by simp
  from a(1) a' a'' c(1) c' c'' have
    "(\<exists>ps'. qs' ! 0 = JObj ps' \<and> map_of ps' ''id'' = Some (JStr ''dynamic_question_1'') \<and>
              map_of ps' ''question'' = Some (JStr ''A?''))"
    "(\<exists>ps'. qs' ! 2 = JObj ps' \<and> map_of ps' ''id'' = Some (JStr ''dynamic_question_3'') \<and>
              map_of ps' ''question'' = Some (JStr ''B?''))"
    by blast+
  with g l' b' example_ids mixed_extract o show ?thesis by blast
qed

text \<open>
  Claim C5 as the specification words it has every returned item carry its
  \<^verbatim>\<open>dynamic_question_\<close> id. For a completion whose array is a number and a string, the
  answer is status 200 with the two items as they were parsed: neither has an \<open>id\<close>.
\<close>

theorem questions_without_id_counterexample:
  "fst (generate_questions (\<lambda>p. Inr plain_completion) mixed_parse example_questions_request) =
     (200, Questions (JArr [JNum ''1'', JStr ''s'']))"
proof -
  have p: "mixed_parse plain_array = Inr (JArr [JNum ''1'', JStr ''s''])"
    by (simp add: mixed_parse_def plain_array_def mixed_array_def)
  have "renumber (JArr [JNum ''1'', JStr ''s'']) = Inr (JArr [JNum ''1'', JStr ''s''])"
    by (simp add: renumber_def)
  from gen_parsed[where generateContent = "\<lambda>p. Inr plain_completion" and p = example_prompt
      and JSON_parse = mixed_parse, OF example_ids example_prompt_eq _ plain_extract p this]
  show ?thesis by simp
qed

text \<open>The array of two objects, renumbered; and an array with a \<^verbatim>\<open>null\<close> item.\<close>

lemma example_renumbered:
  "fst (generate_questions (\<lambda>p. Inr example_completion) example_parse example_questions_request) =
     (200, Questions (JArr
        [JObj [(''id'', JStr ''dynamic_question_1''), (''question'', JStr ''A?'')],
         JObj [(''question'', JStr ''B?''), (''id'', JStr ''dynamic_question_2'')]]))"
proof -
  have "renumber (JArr [JObj [(''id'', JStr ''x''), (''question'', JStr ''A?'')],
                      JObj [(''question'', JStr ''B?'')]]) =
        Inr (JArr
        [JObj [(''id'', JStr ''dynamic_question_1''), (''question'', JStr ''A?'')],
         JObj [(''question'', JStr ''B?''), (''id'', JStr ''dynamic_question_2'')]])"
    by (simp add: renumber_def string_of_nat.simps digit_char_def)
  from gen_parsed[where generateContent = "\<lambda>p. Inr example_completion" and p = example_prompt
      and JSON_parse = example_parse, OF example_ids example_prompt_eq _ example_extract _ this]
  show ?thesis by (simp add: example_parse_def)
qed

lemma renumber_null_item:
  "JNull \<in> set qs \<Longrightarrow>
   renumber (JArr qs) =
     Inl (JsError ''TypeError'' None ''Cannot set properties of null (setting id)'')"
  by (simp add: renumber_def forEach_set_id_null)

end
